theory Spec2Isabelle
  imports Main
begin

section \<open>Strings and values\<close>

text \<open>
  A JavaScript string is a sequence of UTF-16 code units and \<open>length\<close> counts them.
  It is modelled as a \<open>string\<close>, one \<open>char\<close> for each code unit; the functions below
  inspect only the line feed, the full stop, the hyphen and the vertical bar.
\<close>

definition newline :: char where
  "newline = CHR 0x0A"

definition period :: char where
  "period = CHR ''.''"

text \<open>
  \<open>text.lastIndexOf(c, position)\<close> for a one-character search string and a position that is
  not negative: the greatest index \<open>k \<le> position\<close> with \<open>text[k] = c\<close>, and \<open>-1\<close> when there
  is none. A position beyond the last index behaves as the last index.
\<close>

fun lastIndexOf :: "string \<Rightarrow> char \<Rightarrow> nat \<Rightarrow> int" where
  "lastIndexOf text c 0 = (if 0 < length text \<and> text ! 0 = c then 0 else - 1)"
| "lastIndexOf text c (Suc k) =
     (if Suc k < length text \<and> text ! Suc k = c then int (Suc k) else lastIndexOf text c k)"

text \<open>\<open>text.slice(i, end)\<close> for indices that are not negative; empty when \<open>end \<le> i\<close>.\<close>

definition slice :: "string \<Rightarrow> nat \<Rightarrow> nat \<Rightarrow> string" where
  "slice text i end = take (end - i) (drop i text)"

text \<open>
  JavaScript values as \<open>JSON.parse\<close> builds them, and \<open>undefined\<close> for a property that is
  missing. Of a number only whether it is zero is read, so numbers are integers. In an
  object a later pair with the same key replaces an earlier one.
\<close>

datatype jsvalue =
    JUndefined
  | JNull
  | JBool bool
  | JNum int
  | JStr string
  | JArr "jsvalue list"
  | JObj "(string \<times> jsvalue) list"

section \<open>Chunker\<close>

text \<open>
  The body of the loop of \<open>chunkText\<close> up to the assignment of \<open>end\<close>. The sizes are
  natural numbers. The test \<open>lastNewline > i + chunkSize * 0.8\<close> is written without the
  fraction as \<open>5 * lastNewline > 5 * i + 4 * chunkSize\<close>; on the strings
  an engine can hold (indices below \<open>2 ^ 49\<close>) the double-precision comparison of the source
  decides the same.
\<close>

definition cutPoint :: "string \<Rightarrow> nat \<Rightarrow> nat \<Rightarrow> nat" where
  "cutPoint text chunkSize i =
     (let end = min (i + chunkSize) (length text) in
      if end < length text then
        (let lastNewline = lastIndexOf text newline end in
         if 5 * lastNewline > 5 * int i + 4 * int chunkSize then nat (lastNewline + 1)
         else
           (let lastPeriod = lastIndexOf text period end in
            if 5 * lastPeriod > 5 * int i + 4 * int chunkSize then nat (lastPeriod + 1)
            else end))
      else end)"

text \<open>
  The \<open>while\<close> loop. It need not terminate for every chunk size (with \<open>chunkSize = 0\<close> the
  index never moves), so the result is an option and \<open>None\<close> stands for a loop that does not
  return.
\<close>

partial_function (option) chunkLoop :: "string \<Rightarrow> nat \<Rightarrow> nat \<Rightarrow> string list \<Rightarrow> string list option" where
  "chunkLoop text chunkSize i chunks =
     (if i < length text
      then chunkLoop text chunkSize (cutPoint text chunkSize i)
             (chunks @ [slice text i (cutPoint text chunkSize i)])
      else Some chunks)"

definition chunkText :: "string \<Rightarrow> nat \<Rightarrow> string list option" where
  "chunkText text chunkSize =
     (if length text \<le> chunkSize then Some [text] else chunkLoop text chunkSize 0 [])"

text \<open>\<open>parts.join(sep)\<close> on an array of strings.\<close>

fun join :: "string \<Rightarrow> string list \<Rightarrow> string" where
  "join sep [] = []"
| "join sep [x] = x"
| "join sep (x # y # ys) = x @ sep @ join sep (y # ys)"

text \<open>
  The decimal numeral that a template literal prints for a number that is a natural number
  (below \<open>10 ^ 21\<close>, where JavaScript changes to exponent notation).
\<close>

definition digit :: "nat \<Rightarrow> char" where
  "digit d = ''0123456789'' ! d"

fun showNat :: "nat \<Rightarrow> string" where
  "showNat n = (if n < 10 then [digit n] else showNat (n div 10) @ [digit (n mod 10)])"

declare showNat.simps [simp del]

section \<open>Documents and extraction records\<close>

record Risk =
  risk :: string
  category :: string

text \<open>
  The interface \<open>ProcessedData\<close> declares five required fields. A value of that type is
  produced by \<open>JSON.parse(text) as ProcessedData\<close> with no check, and \<open>INGESTION_SCHEMA\<close>
  names no required property, so at run time each field of a parsed object may be
  \<open>undefined\<close>; the aggregation guards against that itself (\<open>r.topics || []\<close>). A field is
  therefore an option, \<open>None\<close> for \<open>undefined\<close>.
\<close>

record ProcessedData =
  summary :: "string option"
  topics :: "string list option"
  risks :: "Risk list option"
  keyPoints :: "string list option"
  entities :: "string list option"

text \<open>
  \<open>LocalFile\<close>, with the fields the functions below read (\<open>size'\<close> is the field \<open>size\<close>).
\<close>

record LocalFile =
  name :: string
  content :: string
  type :: string
  size' :: nat
  processedData :: "ProcessedData option"

section \<open>Ingestion\<close>

text \<open>
  What \<open>JSON.parse(text)\<close> can return in \<open>processChunk\<close>: null, a boolean, a number, a string,
  an array, or an object. The call asks for JSON of \<open>INGESTION_SCHEMA\<close>, so an object is taken
  to be an object of that schema, with any of its properties missing.
\<close>

datatype ParsedValue =
    PNull
  | PBool bool
  | PNum int
  | PStr string
  | PArr "jsvalue list"
  | PObj ProcessedData

text \<open>
  What one call of \<open>ai.models.generateContent\<close> followed by \<open>JSON.parse\<close> can do inside
  \<open>processChunk\<close>: the call throws, the response carries no text, the text is not JSON
  (\<open>JSON.parse\<close> throws), or the text parses to a value. The service is a function of the
  ordinal of the call and of what \<open>processChunk\<close> was given.
\<close>

datatype Extraction = CallThrows | NoText | Malformed | Parsed ParsedValue

type_synonym Service = "nat \<Rightarrow> string \<Rightarrow> bool \<Rightarrow> string \<Rightarrow> Extraction"

datatype JsError = TypeError

definition emptyStructure :: ProcessedData where
  "emptyStructure =
     \<lparr>summary = Some [], topics = Some [], risks = Some [], keyPoints = Some [], entities = Some []\<rparr>"

definition processChunk :: "Service \<Rightarrow> nat \<Rightarrow> string \<Rightarrow> bool \<Rightarrow> string \<Rightarrow> ParsedValue" where
  "processChunk generateContent k chunk isPDF fileName =
     (case generateContent k chunk isPDF fileName of
        CallThrows \<Rightarrow> PObj emptyStructure
      | NoText \<Rightarrow> PObj emptyStructure
      | Malformed \<Rightarrow> PObj emptyStructure
      | Parsed v \<Rightarrow> v)"

text \<open>The \<open>for\<close> loop over the chunks: one call after the other, results in order.\<close>

fun processChunks :: "Service \<Rightarrow> nat \<Rightarrow> string list \<Rightarrow> string \<Rightarrow> ParsedValue list" where
  "processChunks generateContent k [] fileName = []"
| "processChunks generateContent k (chunk # chunks) fileName =
     processChunk generateContent k chunk False fileName
       # processChunks generateContent (Suc k) chunks fileName"

text \<open>
  Reading the five properties of a result \<open>r\<close> (\<open>r.summary\<close>, \<open>r.topics\<close>, ...): on null the read
  throws a \<open>TypeError\<close>; a boolean, a number, a string and an array have none of the five
  properties, so every read gives \<open>undefined\<close>.
\<close>

definition undefinedFields :: ProcessedData where
  "undefinedFields = \<lparr>summary = None, topics = None, risks = None, keyPoints = None, entities = None\<rparr>"

fun properties :: "ParsedValue \<Rightarrow> JsError + ProcessedData" where
  "properties PNull = Inl TypeError"
| "properties (PObj d) = Inr d"
| "properties v = Inr undefinedFields"

text \<open>The reads over all results; the first null throws.\<close>

fun readResults :: "ParsedValue list \<Rightarrow> JsError + ProcessedData list" where
  "readResults [] = Inr []"
| "readResults (r # rs) =
     (case properties r of
        Inl e \<Rightarrow> Inl e
      | Inr d \<Rightarrow> (case readResults rs of Inl e \<Rightarrow> Inl e | Inr ds \<Rightarrow> Inr (d # ds)))"

text \<open>\<open>Array.from(new Set(xs))\<close>: the elements in the order of their first occurrence.\<close>

definition fromSet :: "'a list \<Rightarrow> 'a list" where
  "fromSet xs = fold (\<lambda>x seen. if x \<in> set seen then seen else seen @ [x]) xs []"

text \<open>\<open>v || []\<close> on an array that may be undefined (an array, even empty, is truthy).\<close>

definition orEmpty :: "'a list option \<Rightarrow> 'a list" where
  "orEmpty v = (case v of None \<Rightarrow> [] | Some xs \<Rightarrow> xs)"

text \<open>\<open>.filter(s => s)\<close> on the summaries: undefined and the empty string are dropped.\<close>

definition truthySummaries :: "string option list \<Rightarrow> string list" where
  "truthySummaries ss = concat (map (\<lambda>s. case s of None \<Rightarrow> [] | Some t \<Rightarrow> if t = [] then [] else [t]) ss)"

text \<open>The record \<open>aggregated\<close>, from the properties read.\<close>

definition aggregate :: "ProcessedData list \<Rightarrow> ProcessedData" where
  "aggregate results =
     \<lparr>summary = Some (join [newline, newline] (truthySummaries (map summary results))),
      topics = Some (fromSet (concat (map (\<lambda>r. orEmpty (topics r)) results))),
      risks = Some (concat (map (\<lambda>r. orEmpty (risks r)) results)),
      keyPoints = Some (concat (map (\<lambda>r. orEmpty (keyPoints r)) results)),
      entities = Some (fromSet (concat (map (\<lambda>r. orEmpty (entities r)) results)))\<rparr>"

text \<open>The cap on the aggregated summary (its summary is never undefined).\<close>

definition capSummary :: "ProcessedData \<Rightarrow> ProcessedData" where
  "capSummary aggregated =
     (case summary aggregated of
        None \<Rightarrow> aggregated
      | Some s \<Rightarrow>
          if length s > 2000
          then aggregated\<lparr>summary := Some (take 2000 s @ ''...(Synthesized from multiple sections)'')\<rparr>
          else aggregated)"

text \<open>
  The aggregation step of \<open>processDocumentIngestion\<close>: everything between the loop and
  \<open>return aggregated\<close>. It throws when a result is null.
\<close>

definition aggregateResults :: "ParsedValue list \<Rightarrow> JsError + ParsedValue" where
  "aggregateResults results =
     (case readResults results of
        Inl e \<Rightarrow> Inl e
      | Inr ds \<Rightarrow> Inr (PObj (capSummary (aggregate ds))))"

text \<open>
  The \<open>try\<close> block of \<open>processDocumentIngestion\<close>: what it returns, or the error it throws.
  \<open>None\<close> is a block whose chunk loop does not return.
\<close>

definition tryBlock :: "Service \<Rightarrow> LocalFile \<Rightarrow> (JsError + ParsedValue) option" where
  "tryBlock generateContent file =
     (let isPDF = (type file = ''application/pdf'') in
      if isPDF \<or> length (LocalFile.content file) < 60000
      then Some (Inr (processChunk generateContent 0 (LocalFile.content file) isPDF (name file)))
      else
        (case chunkText (LocalFile.content file) 50000 of
           None \<Rightarrow> None
         | Some chunks \<Rightarrow> Some (aggregateResults (processChunks generateContent 0 chunks (name file)))))"

text \<open>The \<open>catch\<close> clause: any error gives the placeholder record.\<close>

definition analysisFailed :: ProcessedData where
  "analysisFailed =
     \<lparr>summary = Some ''Analysis failed.'', topics = Some [], risks = Some [], keyPoints = Some [],
      entities = Some []\<rparr>"

definition catchBlock :: "JsError + ParsedValue \<Rightarrow> ParsedValue" where
  "catchBlock r = (case r of Inl e \<Rightarrow> PObj analysisFailed | Inr v \<Rightarrow> v)"

definition processDocumentIngestion :: "Service \<Rightarrow> LocalFile \<Rightarrow> ParsedValue option" where
  "processDocumentIngestion generateContent file = map_option catchBlock (tryBlock generateContent file)"

text \<open>Structurally complete: an object with all five fields present.\<close>

definition complete :: "ProcessedData \<Rightarrow> bool" where
  "complete d \<longleftrightarrow>
     summary d \<noteq> None \<and> topics d \<noteq> None \<and> risks d \<noteq> None \<and> keyPoints d \<noteq> None \<and> entities d \<noteq> None"

section \<open>Chat session\<close>

datatype Part = Text string | InlineData string string

record Content =
  role :: string
  parts :: "Part list"

text \<open>
  A \<open>Chat\<close> object as \<open>ai.chats.create\<close> builds it. \<open>handle\<close> is the identity of the object:
  the number of sessions created before it.
\<close>

record Chat =
  handle :: nat
  history :: "Content list"
  systemInstruction :: string

text \<open>The two module variables, and the count of \<open>ai.chats.create\<close> calls so far.\<close>

record SessionState =
  chatSession :: "Chat option"
  currentFileContextHash :: string
  created :: nat

definition generateFileHash :: "LocalFile list \<Rightarrow> string" where
  "generateFileHash files = join ''|'' (map (\<lambda>f. name f @ ''-'' @ showNat (size' f)) files)"

definition instructionHead :: string where
  "instructionHead =
     ''You are a helpful, intelligent research assistant capable of analyzing documents.'' @ [newline]"

definition summaryIntro :: string where
  "summaryIntro = ''Here is a summary of the available knowledge base:'' @ [newline]"

text \<open>
  The line of one processed file; \<open>f.processedData?.summary\<close> prints \<open>undefined\<close> when the
  summary is missing.
\<close>

definition summaryLine :: "LocalFile \<Rightarrow> string" where
  "summaryLine f =
     ''- File: '' @ name f @ [newline] @ ''  Summary: ''
       @ (case processedData f of
            None \<Rightarrow> ''undefined''
          | Some d \<Rightarrow> (case summary d of None \<Rightarrow> ''undefined'' | Some s \<Rightarrow> s))
       @ [newline]"

definition summaryOutro :: string where
  "summaryOutro =
     [newline] @ ''Use this high-level context to answer questions. If specific details are needed, you can refer to the raw file content provided in the history.''"

definition rules :: string where
  "rules =
     ''RULES:'' @ [newline]
     @ ''      1. Strictly use the provided file content as your primary source of truth.'' @ [newline]
     @ ''      2. If the answer is not in the files, state that clearly.'' @ [newline]
     @ ''      3. Be concise but thorough.''"

definition getSystemInstruction :: "LocalFile list \<Rightarrow> string" where
  "getSystemInstruction files =
     (let context = instructionHead;
          processedFiles = filter (\<lambda>f. processedData f \<noteq> None) files
      in if length processedFiles > 0
         then foldl (\<lambda>context f. context @ summaryLine f) (context @ summaryIntro) processedFiles
                @ summaryOutro
         else context @ rules)"

text \<open>The parts \<open>getFileParts\<close> pushes for the file at \<open>index\<close>.\<close>

definition partsOfFile :: "nat \<Rightarrow> LocalFile \<Rightarrow> Part list" where
  "partsOfFile index file =
     (let header = [newline] @ ''--- FILE '' @ showNat (index + 1) @ '': '' @ name file @ '' ---'' @ [newline]
      in if type file = ''application/pdf''
         then [Text header, InlineData ''application/pdf'' (LocalFile.content file)]
         else
           (let content =
                  (if length (LocalFile.content file) > 200000
                   then take 200000 (LocalFile.content file) @ [newline] @ ''...(Truncated for Chat)...''
                   else LocalFile.content file)
            in [Text (header @ content)]))"

definition getFileParts :: "LocalFile list \<Rightarrow> Part list" where
  "getFileParts files =
     (if length files = 0 then []
      else Text (''Here are the uploaded documents you need to analyze:'' @ [newline])
             # concat (map (\<lambda>(index, file). partsOfFile index file) (enumerate 0 files)))"

definition seedHistory :: "LocalFile list \<Rightarrow> Content list" where
  "seedHistory files =
     (let fileParts = getFileParts files
      in if length fileParts > 0
         then [\<lparr>role = ''user'', parts = fileParts\<rparr>,
               \<lparr>role = ''model'', parts = [Text ''I have received the documents and their context.'']\<rparr>]
         else [])"

text \<open>
  \<open>streamGeminiResponse\<close> up to the call of \<open>sendMessageStream\<close>: what it does to the session
  and the stored hash. The message then goes to \<open>chatSession\<close> of the state returned; the
  stream and the callbacks are outside the model.
\<close>

definition streamGeminiResponse :: "string \<Rightarrow> LocalFile list \<Rightarrow> SessionState \<Rightarrow> SessionState" where
  "streamGeminiResponse userMessage files st =
     (let fileHash = generateFileHash files
      in if chatSession st = None \<or> fileHash \<noteq> currentFileContextHash st
         then st\<lparr>chatSession :=
                    Some \<lparr>handle = created st,
                          history = seedHistory files,
                          systemInstruction = getSystemInstruction files\<rparr>,
                  currentFileContextHash := fileHash,
                  created := Suc (created st)\<rparr>
         else st)"

definition resetChatSession :: "SessionState \<Rightarrow> SessionState" where
  "resetChatSession st = st\<lparr>chatSession := None, currentFileContextHash := []\<rparr>"

section \<open>Knowledge graph\<close>

text \<open>\<open>WikiEntry\<close>; \<open>term'\<close> and \<open>definition'\<close> are the fields \<open>term\<close> and \<open>definition\<close>.\<close>

record WikiEntry =
  term' :: string
  definition' :: string
  relatedContext :: string

record WikiNodeData =
  entries :: "WikiEntry list"
  content :: "string option"
  files :: "LocalFile list option"

text \<open>
  \<open>WikiCache\<close> is a plain object, so \<open>prev[key]\<close> finds the own properties of the cache and,
  where there is none under the key, the properties it inherits from \<open>Object.prototype\<close>: a
  function for eleven names and the prototype object for \<open>__proto__\<close>. The handlers store
  what they read, so the value under a key is a node record or such an inherited value;
  \<open>Inherited k\<close> is the value of \<open>Object.prototype[k]\<close>. The map holds the own properties.
\<close>

datatype CacheValue = Node WikiNodeData | Inherited string

type_synonym WikiCache = "string \<rightharpoonup> CacheValue"

definition prototypeKeys :: "string list" where
  "prototypeKeys =
     [''constructor'', ''__defineGetter__'', ''__defineSetter__'', ''hasOwnProperty'',
      ''__lookupGetter__'', ''__lookupSetter__'', ''isPrototypeOf'', ''propertyIsEnumerable'',
      ''toString'', ''valueOf'', ''__proto__'', ''toLocaleString'']"

text \<open>\<open>prev[key]\<close>; \<open>None\<close> is \<open>undefined\<close>. Every value found is truthy.\<close>

definition lookup :: "WikiCache \<Rightarrow> string \<Rightarrow> CacheValue option" where
  "lookup prev key =
     (case prev key of
        Some v \<Rightarrow> Some v
      | None \<Rightarrow> if key \<in> set prototypeKeys then Some (Inherited key) else None)"

text \<open>
  \<open>handleWikiAddManualEntry\<close>. For a target that is an inherited value, \<open>{...node}\<close> copies
  nothing (it has no enumerable own property) and \<open>node.entries\<close> is undefined, except for
  \<open>constructor\<close>: there \<open>node\<close> is \<open>Object\<close> and \<open>node.entries\<close> is the function
  \<open>Object.entries\<close>, which the array spread cannot iterate, so the updater throws a
  \<open>TypeError\<close> (\<open>Inl TypeError\<close>) and the cache is not replaced.
\<close>

definition handleWikiAddManualEntry ::
  "string \<Rightarrow> string \<Rightarrow> string \<Rightarrow> WikiCache \<Rightarrow> JsError + WikiCache" where
  "handleWikiAddManualEntry t d parentNode prev =
     (let targetParent = (if lookup prev parentNode \<noteq> None then parentNode else ''ROOT'');
          newEntry = \<lparr>term' = t, definition' = d, relatedContext = ''Manually added by user''\<rparr>;
          newTermNode = (case lookup prev t of
                           Some v \<Rightarrow> v
                         | None \<Rightarrow> Node \<lparr>entries = [], content = Some d, files = Some []\<rparr>)
      in case lookup prev targetParent of
           None \<Rightarrow>
             Inr ((prev(targetParent \<mapsto> Node \<lparr>entries = [newEntry], content = Some [], files = Some []\<rparr>))
                    (t \<mapsto> newTermNode))
         | Some (Node node) \<Rightarrow>
             Inr ((prev(targetParent \<mapsto> Node (node\<lparr>entries := entries node @ [newEntry]\<rparr>)))
                    (t \<mapsto> newTermNode))
         | Some (Inherited k) \<Rightarrow>
             if k = ''constructor'' then Inl TypeError
             else Inr ((prev(targetParent \<mapsto> Node \<lparr>entries = [newEntry], content = None, files = None\<rparr>))
                         (t \<mapsto> newTermNode)))"

text \<open>
  \<open>wikiPath[wikiPath.length - 1]\<close>: undefined on an empty path. As a key of the cache
  undefined reads the property named \<open>undefined\<close>, and in a template it prints so.
\<close>

definition currentTerm :: "string list \<Rightarrow> string option" where
  "currentTerm wikiPath = (if wikiPath = [] then None else Some (last wikiPath))"

definition keyOf :: "string option \<Rightarrow> string" where
  "keyOf k = (case k of None \<Rightarrow> ''undefined'' | Some s \<Rightarrow> s)"

text \<open>
  \<open>handleWikiMoveNode\<close>. \<open>Inl TypeError\<close> is the updater throwing: on \<open>oldParentNode.entries.filter\<close>
  when the cache has no node record for the current parent, and on
  \<open>newParentNode.entries.some\<close> when the new parent is an inherited value. The cache is then
  not replaced.
\<close>

definition handleWikiMoveNode ::
  "string \<Rightarrow> string \<Rightarrow> string \<Rightarrow> string list \<Rightarrow> WikiCache \<Rightarrow> JsError + WikiCache" where
  "handleWikiMoveNode t d newParent wikiPath prev =
     (let currentParent = currentTerm wikiPath in
      if currentParent = Some newParent then Inr prev
      else
        (case lookup prev (keyOf currentParent) of
           None \<Rightarrow> Inl TypeError
         | Some (Inherited k) \<Rightarrow> Inl TypeError
         | Some (Node oldParentNode) \<Rightarrow>
             (let updatedOldEntries = filter (\<lambda>e. term' e \<noteq> t) (entries oldParentNode);
                  newParentValue = (case lookup prev newParent of
                                      Some v \<Rightarrow> v
                                    | None \<Rightarrow> Node \<lparr>entries = [], content = Some [], files = Some []\<rparr>)
              in case newParentValue of
                   Inherited k \<Rightarrow> Inl TypeError
                 | Node newParentNode \<Rightarrow>
                     if list_ex (\<lambda>e. term' e = t) (entries newParentNode) then Inr prev
                     else
                       (let movedEntry = \<lparr>term' = t, definition' = d,
                                           relatedContext = ''Moved from '' @ keyOf currentParent\<rparr>
                        in Inr ((prev(keyOf currentParent \<mapsto> Node (oldParentNode\<lparr>entries := updatedOldEntries\<rparr>)))
                                  (newParent \<mapsto>
                                     Node (newParentNode\<lparr>entries := entries newParentNode @ [movedEntry]\<rparr>)))))))"

text \<open>The cache after a call of a handler: unchanged when the updater threw.\<close>

definition cacheAfter :: "WikiCache \<Rightarrow> JsError + WikiCache \<Rightarrow> WikiCache" where
  "cacheAfter prev r = (case r of Inl e \<Rightarrow> prev | Inr c \<Rightarrow> c)"

text \<open>
  The terms a node lists as its children, and the invariant of the graph: no term is listed
  by two different nodes.
\<close>

definition childTerms :: "WikiCache \<Rightarrow> string \<Rightarrow> string set" where
  "childTerms c p = (case c p of Some (Node n) \<Rightarrow> set (map term' (entries n)) | _ \<Rightarrow> {})"

definition singleParent :: "WikiCache \<Rightarrow> bool" where
  "singleParent c \<longleftrightarrow> (\<forall>p \<in> dom c. \<forall>q \<in> dom c. p \<noteq> q \<longrightarrow> childTerms c p \<inter> childTerms c q = {})"

text \<open>The term \<open>t\<close> is listed by no node other than \<open>k\<close>.\<close>

definition listedOnlyUnder :: "WikiCache \<Rightarrow> string \<Rightarrow> string \<Rightarrow> bool" where
  "listedOnlyUnder c t k \<longleftrightarrow> (\<forall>q \<in> dom c. q \<noteq> k \<longrightarrow> t \<notin> childTerms c q)"

section \<open>Snapshot import\<close>

text \<open>
  \<open>v.key\<close> for the keys \<open>files\<close>, \<open>wiki\<close> and \<open>riskData\<close>, on a value that is neither null nor
  undefined: only an object can have them.
\<close>

definition getProp :: "jsvalue \<Rightarrow> string \<Rightarrow> jsvalue" where
  "getProp v key =
     (case v of
        JObj kvs \<Rightarrow> (case map_of (rev kvs) key of None \<Rightarrow> JUndefined | Some x \<Rightarrow> x)
      | _ \<Rightarrow> JUndefined)"

fun truthy :: "jsvalue \<Rightarrow> bool" where
  "truthy JUndefined = False"
| "truthy JNull = False"
| "truthy (JBool b) = b"
| "truthy (JNum n) = (n \<noteq> 0)"
| "truthy (JStr s) = (s \<noteq> [])"
| "truthy (JArr xs) = True"
| "truthy (JObj kvs) = True"

fun isArray :: "jsvalue \<Rightarrow> bool" where
  "isArray (JArr xs) = True"
| "isArray v = False"

text \<open>\<open>typeof v === 'object'\<close>: true of objects, of arrays and of null.\<close>

fun typeofObject :: "jsvalue \<Rightarrow> bool" where
  "typeofObject JNull = True"
| "typeofObject (JArr xs) = True"
| "typeofObject (JObj kvs) = True"
| "typeofObject v = False"

fun arrayLength :: "jsvalue \<Rightarrow> nat" where
  "arrayLength (JArr xs) = length xs"
| "arrayLength v = 0"

datatype LogLevel = info | success | warning | error

text \<open>\<open>LogEntry\<close> without its random id and its time stamp.\<close>

record LogEntry =
  level :: LogLevel
  message :: string
  details :: "string option"

text \<open>
  The state of \<open>App\<close> that the import reads and writes. The import stores the parsed values
  as they are, so the documents, the graph and the risk register are JavaScript values here.
\<close>

record AppState =
  files :: jsvalue
  wikiCache :: jsvalue
  riskData :: jsvalue
  wikiPath :: "string list"
  logs :: "LogEntry list"

definition addLog :: "LogLevel \<Rightarrow> string \<Rightarrow> string option \<Rightarrow> AppState \<Rightarrow> AppState" where
  "addLog lvl msg det st = st\<lparr>logs := logs st @ [\<lparr>level = lvl, message = msg, details = det\<rparr>]\<rparr>"

text \<open>
  What \<open>JSON.parse(content)\<close> does on the text of the file: it throws a \<open>SyntaxError\<close> with a
  message, or returns a value.
\<close>

datatype JsonParse = SyntaxError string | Value jsvalue

text \<open>
  The \<open>onload\<close> handler of \<open>handleImportContext\<close>. The error thrown on an invalid document is
  caught by the handler's own \<open>catch\<close>, which logs its message.
\<close>

definition handleImportContext :: "JsonParse \<Rightarrow> AppState \<Rightarrow> AppState" where
  "handleImportContext parsed st =
     (case parsed of
        SyntaxError msg \<Rightarrow> addLog error ''Failed to load context file'' (Some msg) st
      | Value v \<Rightarrow>
          if truthy v \<and> isArray (getProp v ''files'') \<and> typeofObject (getProp v ''wiki'')
          then
            (let st1 = st\<lparr>AppState.files := getProp v ''files''\<rparr>;
                 st2 = st1\<lparr>wikiCache := getProp v ''wiki''\<rparr>;
                 st3 = (if truthy (getProp v ''riskData'') then st2\<lparr>riskData := getProp v ''riskData''\<rparr> else st2);
                 st4 = st3\<lparr>wikiPath := [''ROOT'']\<rparr>
             in addLog success
                  (''Context loaded: '' @ showNat (arrayLength (getProp v ''files'')) @ '' files restored.'')
                  None st4)
          else addLog error ''Failed to load context file'' (Some ''Invalid context file format.'') st)"

section \<open>Example inputs\<close>

text \<open>
  A text of 60000 characters with two line feeds: one at index 49999, the last index of the
  first window of the chunker, and one at index 50000, the first index beyond it.
\<close>

definition overrunText :: string where
  "overrunText = replicate 49999 CHR ''a'' @ newline # newline # replicate 9999 CHR ''b''"

definition shortText :: string where
  "shortText = ''abcde'' @ newline # ''xyz''"

text \<open>
  Extraction results and services: two results with overlapping topics, a result that
  repeats a topic, an object without any of the five properties (the JSON text \<open>{}\<close>), a
  service whose every call throws, a service whose second answer is the JSON text \<open>null\<close>,
  and a result with all five fields filled.
\<close>

definition riskOne :: Risk where
  "riskOne = \<lparr>risk = ''r1'', category = ''Legal''\<rparr>"

definition riskTwo :: Risk where
  "riskTwo = \<lparr>risk = ''r2'', category = ''Operational''\<rparr>"





definition smallFile :: LocalFile where
  "smallFile = \<lparr>name = ''memo.txt'', content = ''x'', type = ''text/plain'', size' = 1,
                 processedData = None\<rparr>"

definition repeatedTopics :: ProcessedData where
  "repeatedTopics = \<lparr>summary = Some ''s'', topics = Some [''A'', ''A''], risks = Some [],
                      keyPoints = Some [], entities = Some []\<rparr>"

definition repeatingService :: Service where
  "repeatingService k chunk isPDF fileName = Parsed (PObj repeatedTopics)"

definition bareObject :: ProcessedData where
  "bareObject = \<lparr>summary = None, topics = None, risks = None, keyPoints = None, entities = None\<rparr>"

definition throwingService :: Service where
  "throwingService k chunk isPDF fileName = CallThrows"

definition bareService :: Service where
  "bareService k chunk isPDF fileName = Parsed (PObj bareObject)"


definition fullResult :: ProcessedData where
  "fullResult = \<lparr>summary = Some ''Runway works in 2026.'', topics = Some [''Runway'', ''Works''],
                  risks = Some [riskOne, riskTwo], keyPoints = Some [''Closed for 3 weeks''],
                  entities = Some [''Airport'', ''Regulator'']\<rparr>"

definition fullService :: Service where
  "fullService k chunk isPDF fileName = Parsed (PObj fullResult)"

text \<open>
  Documents and sessions: a file that has been ingested and one that has not, two sets of
  two files whose names and sizes differ, a PDF, a text file of 200001 characters, and the
  state of the module before the first message.
\<close>

definition ingestedFile :: LocalFile where
  "ingestedFile = \<lparr>name = ''a.txt'', content = ''alpha'', type = ''text/plain'', size' = 5,
      processedData = Some (emptyStructure\<lparr>summary := Some ''About alpha.''\<rparr>)\<rparr>"

definition pendingFile :: LocalFile where
  "pendingFile = \<lparr>name = ''b.txt'', content = ''beta'', type = ''text/plain'', size' = 4,
      processedData = None\<rparr>"

definition firstSet :: "LocalFile list" where
  "firstSet = [\<lparr>name = ''a'', content = ''x'', type = ''text/plain'', size' = 1, processedData = None\<rparr>,
               \<lparr>name = ''b-2|c'', content = ''xyz'', type = ''text/plain'', size' = 3, processedData = None\<rparr>]"

definition secondSet :: "LocalFile list" where
  "secondSet = [\<lparr>name = ''a-1|b'', content = ''xy'', type = ''text/plain'', size' = 2, processedData = None\<rparr>,
                \<lparr>name = ''c'', content = ''xyz'', type = ''text/plain'', size' = 3, processedData = None\<rparr>]"

definition scanFile :: LocalFile where
  "scanFile = \<lparr>name = ''scan.pdf'', content = ''JVBERi0='', type = ''application/pdf'', size' = 6,
      processedData = None\<rparr>"

definition longFile :: LocalFile where
  "longFile = \<lparr>name = ''big.txt'', content = replicate 200001 CHR ''z'', type = ''text/plain'',
      size' = 200001, processedData = None\<rparr>"

definition initialSession :: SessionState where
  "initialSession = \<lparr>chatSession = None, currentFileContextHash = [], created = 0\<rparr>"

text \<open>
  A graph in which \<open>ROOT\<close> lists the term \<open>X\<close> and the nodes \<open>A\<close> and \<open>X\<close> list nothing.
\<close>

definition exampleCache :: WikiCache where
  "exampleCache =
     [''ROOT'' \<mapsto> Node \<lparr>entries = [\<lparr>term' = ''X'', definition' = ''d'',
                                       relatedContext = ''Manually added by user''\<rparr>],
                           content = Some [], files = Some []\<rparr>,
      ''A'' \<mapsto> Node \<lparr>entries = [], content = Some [], files = Some []\<rparr>,
      ''X'' \<mapsto> Node \<lparr>entries = [], content = Some ''d'', files = Some []\<rparr>]"

text \<open>
  An application state with a risk register; a snapshot as the export writes it when there is
  no risk register; a document whose \<open>files\<close> value is not an array; and one whose \<open>wiki\<close>
  value is null.
\<close>

definition workingState :: AppState where
  "workingState =
     \<lparr>files = JArr [JObj [(''name'', JStr ''old.txt'')]],
      wikiCache = JObj [(''ROOT'', JObj [(''entries'', JArr [])])],
      riskData = JObj [(''risks'', JArr [JObj [(''riskDescription'', JStr ''Delay'')]]),
                       (''gapAnalysis'', JArr [])],
      wikiPath = [''ROOT'', ''Safety''],
      logs = []\<rparr>"

definition snapshotWithoutRisks :: jsvalue where
  "snapshotWithoutRisks =
     JObj [(''version'', JNum 2), (''timestamp'', JStr ''2025-12-04T14:39:13.000Z''),
           (''files'', JArr []), (''wiki'', JObj []), (''riskData'', JNull)]"

definition malformedSnapshot :: jsvalue where
  "malformedSnapshot = JObj [(''files'', JStr ''none''), (''wiki'', JObj [])]"

definition nullGraphSnapshot :: jsvalue where
  "nullGraphSnapshot = JObj [(''files'', JArr []), (''wiki'', JNull)]"

section \<open>Properties of the chunker\<close>

subsection \<open>The search and the cut point\<close>

lemma lastIndexOf_le: "lastIndexOf text c k \<le> int k"
  by (induction k) auto

lemma lastIndexOf_lt_length: "text \<noteq> [] \<Longrightarrow> lastIndexOf text c k < int (length text)"
  by (induction k) auto

lemma lastIndexOf_hit: "k < length text \<Longrightarrow> text ! k = c \<Longrightarrow> lastIndexOf text c k = int k"
  by (cases k) auto

lemma cutPoint_le_length: "cutPoint text chunkSize i \<le> length text"
proof (cases "text = []")
  case True
  then show ?thesis by (simp add: cutPoint_def)
next
  case False
  have "nat (lastIndexOf text c k + 1) \<le> length text" for c k
    using lastIndexOf_lt_length [OF False, of c k] by linarith
  then show ?thesis
    by (auto simp: cutPoint_def Let_def)
qed

lemma cutPoint_advances:
  assumes "i < length text" and "0 < chunkSize"
  shows "i < cutPoint text chunkSize i"
proof -
  have accepted: "i < nat (l + 1)" if "5 * l > 5 * int i + 4 * int chunkSize" for l :: int
    using that by linarith
  from assms have "i < min (i + chunkSize) (length text)"
    by simp
  with accepted show ?thesis
    by (auto simp: cutPoint_def Let_def)
qed

lemma cutPoint_le_window: "cutPoint text chunkSize i \<le> i + chunkSize + 1"
proof -
  have "nat (lastIndexOf text c (min (i + chunkSize) (length text)) + 1) \<le> i + chunkSize + 1" for c
    using lastIndexOf_le [of "text" c "min (i + chunkSize) (length text)"] by linarith
  then show ?thesis
    by (auto simp: cutPoint_def Let_def)
qed

lemma slice_append_drop:
  "i \<le> e \<Longrightarrow> e \<le> length text \<Longrightarrow> slice text i e @ drop e text = drop i text"
proof -
  assume "i \<le> e" "e \<le> length text"
  then have "drop e text = drop (e - i) (drop i text)"
    by simp
  then show ?thesis
    by (simp only: slice_def append_take_drop_id)
qed

lemma chunkLoop_total:
  assumes "0 < chunkSize"
  shows "i \<le> length text \<Longrightarrow>
    \<exists>pieces. chunkLoop text chunkSize i chunks = Some (chunks @ pieces) \<and> concat pieces = drop i text"
proof (induction "length text - i" arbitrary: i chunks rule: less_induct)
  case less
  show ?case
  proof (cases "i < length text")
    case False
    with less.prems have "i = length text" by simp
    then show ?thesis
      by (subst chunkLoop.simps) simp
  next
    case True
    let ?e = "cutPoint text chunkSize i"
    have adv: "i < ?e" using True assms by (rule cutPoint_advances)
    have le: "?e \<le> length text" by (rule cutPoint_le_length)
    from adv le have "length text - ?e < length text - i" by linarith
    from less.hyps [OF this le, of "chunks @ [slice text i ?e]"]
    obtain pieces where run: "chunkLoop text chunkSize ?e (chunks @ [slice text i ?e])
        = Some ((chunks @ [slice text i ?e]) @ pieces)"
      and cat: "concat pieces = drop ?e text"
      by blast
    have "chunkLoop text chunkSize i chunks = Some (chunks @ (slice text i ?e # pieces))"
      using True run by (subst chunkLoop.simps) simp
    moreover have "concat (slice text i ?e # pieces) = drop i text"
      using cat adv le by (simp add: slice_append_drop)
    ultimately show ?thesis by blast
  qed
qed

lemma chunkText_returns: "0 < chunkSize \<Longrightarrow> \<exists>chunks. chunkText text chunkSize = Some chunks"
  using chunkLoop_total [of chunkSize 0 "text" "[]"] by (auto simp: chunkText_def)

text \<open>
  C1. For every text and every chunk size greater than zero \<open>chunkText\<close> returns, and the
  pieces it returns, concatenated in order, are the text.
\<close>

theorem chunkText_roundtrip:
  "0 < chunkSize \<Longrightarrow> \<exists>chunks. chunkText text chunkSize = Some chunks \<and> concat chunks = text"
proof (cases "length text \<le> chunkSize")
  case True
  then show ?thesis by (simp add: chunkText_def)
next
  case False
  assume "0 < chunkSize"
  from chunkLoop_total [OF this, of 0 "text" "[]"] False show ?thesis
    by (simp add: chunkText_def)
qed

text \<open>
  C1 at a text of nine characters and a chunk size of five.
\<close>

theorem chunkText_roundtrip_witness:
  "(0::nat) < 5 \<and> (\<exists>chunks. chunkText shortText 5 = Some chunks \<and> concat chunks = shortText)"
  using chunkText_roundtrip [of 5 shortText] by simp

subsection \<open>Termination\<close>

text \<open>With a chunk size of zero the index never moves and the loop does not return.\<close>

lemma cutPoint_zero: "i < length text \<Longrightarrow> cutPoint text 0 i = i"
  using lastIndexOf_le [of "text" newline i] lastIndexOf_le [of "text" period i]
  by (simp add: cutPoint_def Let_def)

lemma chunkLoop_zero:
  assumes "chunkLoop text n i chunks = Some r"
  shows "n = 0 \<longrightarrow> length text \<le> i"
proof (rule chunkLoop.raw_induct [where P = "\<lambda>t n i chunks r. n = 0 \<longrightarrow> length t \<le> i", OF _ assms])
  fix loop t n i chunks r
  assume IH: "\<And>t n i chunks r. loop t n i chunks = Some r \<Longrightarrow> n = 0 \<longrightarrow> length t \<le> i"
    and step: "(if i < length t
                then loop t n (cutPoint t n i) (chunks @ [slice t i (cutPoint t n i)])
                else Some chunks) = Some r"
  show "n = 0 \<longrightarrow> length t \<le> i"
  proof (intro impI, rule ccontr)
    assume z: "n = 0" and "\<not> length t \<le> i"
    then have lt: "i < length t" by simp
    with step z have "loop t 0 i (chunks @ [slice t i i]) = Some r"
      by (simp add: cutPoint_zero)
    from IH [OF this] lt show False by simp
  qed
qed

lemma chunkText_zero_diverges: "text \<noteq> [] \<Longrightarrow> chunkText text 0 = None"
proof (rule ccontr)
  assume ne: "text \<noteq> []" and "chunkText text 0 \<noteq> None"
  then obtain r where "chunkLoop text 0 0 [] = Some r"
    by (auto simp: chunkText_def)
  from chunkLoop_zero [OF this] ne show False by simp
qed

text \<open>
  C10. With a chunk size greater than zero \<open>chunkText\<close> returns on every text, and every
  iteration of its loop moves the index strictly forward and never beyond the end of the
  text. (The program calls \<open>chunkText\<close> with its default size of 50000 only.)
\<close>

theorem chunkText_terminates:
  "0 < chunkSize \<Longrightarrow>
     (\<exists>chunks. chunkText text chunkSize = Some chunks)
     \<and> (\<forall>i < length text. i < cutPoint text chunkSize i \<and> cutPoint text chunkSize i \<le> length text)"
proof -
  assume pos: "0 < chunkSize"
  have "\<exists>chunks. chunkText text chunkSize = Some chunks"
  proof (cases "length text \<le> chunkSize")
    case True
    then show ?thesis by (simp add: chunkText_def)
  next
    case False
    with chunkLoop_total [OF pos, of 0 "text" "[]"] show ?thesis
      by (auto simp: chunkText_def)
  qed
  moreover have "\<forall>i < length text. i < cutPoint text chunkSize i \<and> cutPoint text chunkSize i \<le> length text"
    using pos by (simp add: cutPoint_advances cutPoint_le_length)
  ultimately show ?thesis by blast
qed

text \<open>
  C10 at the default chunk size, on \<open>overrunText\<close>, for the iteration that starts at index 50001.
\<close>

theorem chunkText_terminates_witness:
  "(0::nat) < 50000
     \<and> (\<exists>chunks. chunkText overrunText 50000 = Some chunks)
     \<and> 50001 < length overrunText
     \<and> 50001 < cutPoint overrunText 50000 50001
     \<and> cutPoint overrunText 50000 50001 \<le> length overrunText"
proof -
  have "50001 < length overrunText" by (simp add: overrunText_def)
  with chunkText_terminates [of 50000 overrunText] show ?thesis by simp
qed

subsection \<open>Size of the pieces\<close>

lemma chunkText_overrun_run:
  "chunkLoop overrunText 50000 0 [] = Some [replicate 49999 CHR ''a'' @ [newline, newline], replicate 9999 CHR ''b'']"
proof -
  have len: "length overrunText = 60000" by (simp add: overrunText_def)
  have nl: "overrunText ! 50000 = newline" by (simp add: overrunText_def nth_append)
  have "lastIndexOf overrunText newline 50000 = 50000"
    using lastIndexOf_hit [of 50000 overrunText newline] len nl by simp
  then have c0: "cutPoint overrunText 50000 0 = 50001"
    by (simp add: cutPoint_def len)
  have c1: "cutPoint overrunText 50000 50001 = 60000"
    by (simp add: cutPoint_def len)
  have s0: "slice overrunText 0 50001 = replicate 49999 CHR ''a'' @ [newline, newline]"
    by (simp add: slice_def overrunText_def)
  have s1: "slice overrunText 50001 60000 = replicate 9999 CHR ''b''"
    by (simp add: slice_def overrunText_def)
  have "chunkLoop overrunText 50000 60000 cs = Some cs" for cs
    by (subst chunkLoop.simps) (simp add: len)
  then have "chunkLoop overrunText 50000 50001 cs = Some (cs @ [replicate 9999 CHR ''b''])" for cs
    by (subst chunkLoop.simps) (simp add: len c1 s1)
  then show ?thesis
    by (subst chunkLoop.simps) (simp add: len c0 s0)
qed

text \<open>
  C3. On \<open>overrunText\<close> the first of the two pieces is 50001 characters long, one more than
  the chunk size: the backward search for the line feed starts at index 50000 itself, finds
  it there, and the piece is cut behind it. The piece is not the last, and a line feed past
  80 percent of the window was there inside the window too, at index 49999.
\<close>

theorem chunkText_overrun:
  "chunkText overrunText 50000 = Some [replicate 49999 CHR ''a'' @ [newline, newline], replicate 9999 CHR ''b'']
   \<and> length (replicate 49999 CHR ''a'' @ [newline, newline]) = 50001
   \<and> lastIndexOf overrunText newline (min (0 + 50000) (length overrunText)) = 50000
   \<and> overrunText ! 49999 = newline \<and> 5 * (49999::int) > 5 * 0 + 4 * 50000"
proof -
  have len: "length overrunText = 60000" by (simp add: overrunText_def)
  have nl: "overrunText ! 50000 = newline" by (simp add: overrunText_def nth_append)
  have "lastIndexOf overrunText newline 50000 = 50000"
    using lastIndexOf_hit [of 50000 overrunText newline] len nl by simp
  moreover have "overrunText ! 49999 = newline" by (simp add: overrunText_def nth_append)
  ultimately show ?thesis
    using chunkText_overrun_run by (simp add: chunkText_def len)
qed

text \<open>
  When it happens: a line feed at the first index beyond the window is always taken and puts
  the cut one beyond the window; with neither a line feed nor a full stop at that index the
  cut stays within the window. No piece is longer than the chunk size plus one.
\<close>

lemma lastIndexOf_miss: "text ! k \<noteq> c \<Longrightarrow> lastIndexOf text c k < int k"
proof (cases k)
  case 0
  assume "text ! k \<noteq> c"
  with 0 show ?thesis by simp
next
  case (Suc j)
  assume "text ! k \<noteq> c"
  with Suc lastIndexOf_le [of "text" c j] show ?thesis by simp
qed

lemma cutPoint_overrun:
  assumes "i + chunkSize < length text" and "text ! (i + chunkSize) = newline" and "0 < chunkSize"
  shows "cutPoint text chunkSize i = i + chunkSize + 1"
proof -
  from assms(1,2) have "lastIndexOf text newline (i + chunkSize) = int (i + chunkSize)"
    by (rule lastIndexOf_hit)
  with assms(1,3) show ?thesis
    by (simp add: cutPoint_def Let_def)
qed

lemma cutPoint_within:
  assumes "text ! (i + chunkSize) \<noteq> newline" and "text ! (i + chunkSize) \<noteq> period"
  shows "cutPoint text chunkSize i \<le> i + chunkSize"
proof (cases "i + chunkSize < length text")
  case True
  from assms have "nat (lastIndexOf text newline (i + chunkSize) + 1) \<le> i + chunkSize"
    "nat (lastIndexOf text period (i + chunkSize) + 1) \<le> i + chunkSize"
    using lastIndexOf_miss [of "text" "i + chunkSize" newline]
      lastIndexOf_miss [of "text" "i + chunkSize" period] by linarith+
  with True show ?thesis
    by (simp add: cutPoint_def Let_def)
next
  case False
  then show ?thesis by (simp add: cutPoint_def Let_def)
qed

lemma slice_length_bound: "length (slice text i (cutPoint text chunkSize i)) \<le> chunkSize + 1"
  using cutPoint_le_window [of "text" chunkSize i] by (simp add: slice_def)

section \<open>Properties of the ingestion\<close>



lemma fold_seen_id:
  "distinct (acc @ xs) \<Longrightarrow> fold (\<lambda>x seen. if x \<in> set seen then seen else seen @ [x]) xs acc = acc @ xs"
  by (induction xs arbitrary: acc) auto



lemma fromSet_distinct_id: "distinct xs \<Longrightarrow> fromSet xs = xs"
  using fold_seen_id [of "[]" xs] by (simp add: fromSet_def)

lemma capSummary_fields:
  "topics (capSummary a) = topics a" "risks (capSummary a) = risks a"
  "keyPoints (capSummary a) = keyPoints a" "entities (capSummary a) = entities a"
  by (simp_all add: capSummary_def split: option.splits)

lemma complete_aggregate: "complete (capSummary (aggregate rs))"
  by (simp add: complete_def capSummary_fields) (simp add: capSummary_def aggregate_def)

subsection \<open>The loop and the reads\<close>








subsection \<open>The two paths\<close>

lemma ingestion_chunked:
  assumes "type file \<noteq> ''application/pdf''" and "60000 \<le> length (LocalFile.content file)"
  shows "\<exists>chunks. chunkText (LocalFile.content file) 50000 = Some chunks
     \<and> processDocumentIngestion generateContent file
         = Some (catchBlock (aggregateResults (processChunks generateContent 0 chunks (name file))))"
proof -
  obtain chunks where "chunkText (LocalFile.content file) 50000 = Some chunks"
    using chunkText_returns [of 50000 "LocalFile.content file"] by auto
  with assms show ?thesis
    by (simp add: processDocumentIngestion_def tryBlock_def)
qed

lemma ingestion_direct:
  assumes "type file = ''application/pdf'' \<or> length (LocalFile.content file) < 60000"
  shows "processDocumentIngestion generateContent file
     = Some (processChunk generateContent 0 (LocalFile.content file) (type file = ''application/pdf'') (name file))"
  using assms by (auto simp: processDocumentIngestion_def tryBlock_def catchBlock_def)








lemma aggregate_single:
  assumes "complete r" and "length (orEmpty (summary r)) \<le> 2000"
    and "distinct (orEmpty (topics r))" and "distinct (orEmpty (entities r))"
  shows "capSummary (aggregate [r]) = r"
proof -
  from assms(1) obtain s ts rs ks es where
    f: "summary r = Some s" "topics r = Some ts" "risks r = Some rs" "keyPoints r = Some ks" "entities r = Some es"
    by (auto simp: complete_def)
  have j: "join [newline, newline] (truthySummaries [Some s]) = s"
    by (simp add: truthySummaries_def)
  from assms f have "length s \<le> 2000" "fromSet ts = ts" "fromSet es = es"
    by (simp_all add: orEmpty_def fromSet_distinct_id)
  with f j show ?thesis
    by (simp add: aggregate_def capSummary_def orEmpty_def)
qed

lemma aggregateResults_single:
  assumes "complete r" and "length (orEmpty (summary r)) \<le> 2000"
    and "distinct (orEmpty (topics r))" and "distinct (orEmpty (entities r))"
  shows "catchBlock (aggregateResults [PObj r]) = PObj r"
  using aggregate_single [OF assms] by (simp add: catchBlock_def aggregateResults_def)

text \<open>
  C6, amended. An ingestion that needs no chunking (a PDF, or a text of fewer than 60000
  characters) returns the result of its one extraction call as it is. This is what the
  aggregation step gives on the one-element sequence of that result whenever the result is an
  object that has all five fields, a summary of at most 2000 characters and no topic and no
  entity twice.
\<close>

theorem single_chunk_direct:
  assumes "type file = ''application/pdf'' \<or> length (LocalFile.content file) < 60000"
  shows "processDocumentIngestion generateContent file
           = Some (processChunk generateContent 0 (LocalFile.content file) (type file = ''application/pdf'') (name file))
     \<and> (processChunk generateContent 0 (LocalFile.content file) (type file = ''application/pdf'') (name file) = PObj r
          \<and> complete r \<and> length (orEmpty (summary r)) \<le> 2000
          \<and> distinct (orEmpty (topics r)) \<and> distinct (orEmpty (entities r))
        \<longrightarrow> catchBlock (aggregateResults
               [processChunk generateContent 0 (LocalFile.content file) (type file = ''application/pdf'') (name file)])
             = processChunk generateContent 0 (LocalFile.content file) (type file = ''application/pdf'') (name file))"
  using ingestion_direct [OF assms] by (simp add: aggregateResults_single)

text \<open>
  C6, amended, at a short file for which the service answers with a summary, two topics, two
  risks, a key point and two entities: this record is returned, and the aggregation step on
  it alone gives it back.
\<close>

theorem single_chunk_direct_witness:
  "(type smallFile = ''application/pdf'' \<or> length (LocalFile.content smallFile) < 60000)
   \<and> processChunk fullService 0 (LocalFile.content smallFile) (type smallFile = ''application/pdf'') (name smallFile)
       = PObj fullResult
   \<and> complete fullResult \<and> length (orEmpty (summary fullResult)) \<le> 2000
   \<and> distinct (orEmpty (topics fullResult)) \<and> distinct (orEmpty (entities fullResult))
   \<and> topics fullResult = Some [''Runway'', ''Works'']
   \<and> processDocumentIngestion fullService smallFile = Some (PObj fullResult)
   \<and> catchBlock (aggregateResults [PObj fullResult]) = PObj fullResult"
proof -
  have h: "type smallFile = ''application/pdf'' \<or> length (LocalFile.content smallFile) < 60000"
    by (simp add: smallFile_def)
  have r: "processChunk fullService 0 (LocalFile.content smallFile) (type smallFile = ''application/pdf'') (name smallFile)
      = PObj fullResult"
    by (simp add: processChunk_def fullService_def)
  have c: "complete fullResult" "length (orEmpty (summary fullResult)) \<le> 2000"
     "distinct (orEmpty (topics fullResult))" "distinct (orEmpty (entities fullResult))"
     "topics fullResult = Some [''Runway'', ''Works'']"
    by (simp_all add: complete_def fullResult_def orEmpty_def)
  from single_chunk_direct [OF h, of fullService fullResult] r c h show ?thesis
    by simp
qed

text \<open>
  C6 as stated fails. For a short file the service answers with a result that names the topic
  A twice. The ingestion returns this result; the aggregation step on the one-element
  sequence names the topic once.
\<close>

theorem single_chunk_not_aggregated:
  "processDocumentIngestion repeatingService smallFile = Some (PObj repeatedTopics)
   \<and> topics repeatedTopics = Some [''A'', ''A'']
   \<and> catchBlock (aggregateResults [processChunk repeatingService 0 ''x'' False ''memo.txt''])
       = PObj (repeatedTopics\<lparr>topics := Some [''A'']\<rparr>)
   \<and> processDocumentIngestion repeatingService smallFile
       \<noteq> Some (catchBlock (aggregateResults [processChunk repeatingService 0 ''x'' False ''memo.txt'']))"
proof -
  have a: "processDocumentIngestion repeatingService smallFile = Some (PObj repeatedTopics)"
    by (simp add: processDocumentIngestion_def tryBlock_def catchBlock_def smallFile_def processChunk_def
        repeatingService_def)
  have b: "catchBlock (aggregateResults [processChunk repeatingService 0 ''x'' False ''memo.txt''])
       = PObj (repeatedTopics\<lparr>topics := Some [''A'']\<rparr>)"
    by (simp add: catchBlock_def aggregateResults_def capSummary_def aggregate_def processChunk_def
        repeatingService_def repeatedTopics_def orEmpty_def fromSet_def truthySummaries_def)
  have c: "topics repeatedTopics = Some [''A'', ''A'']"
    by (simp add: repeatedTopics_def)
  from c have "repeatedTopics\<lparr>topics := Some [''A'']\<rparr> \<noteq> repeatedTopics"
    by (simp add: repeatedTopics_def)
  with a b c show ?thesis by simp
qed

text \<open>
  C4. For a short text file the service answers with the JSON object \<open>{}\<close>, which conforms to
  \<open>INGESTION_SCHEMA\<close>. The ingestion returns this object, and it has none of the five
  fields. The chunked path builds a complete record from such answers (\<open>complete_aggregate\<close>);
  the single-call path returns what \<open>JSON.parse\<close> gave.
\<close>

theorem ingestion_incomplete_record:
  "processDocumentIngestion bareService smallFile = Some (PObj bareObject) \<and> \<not> complete bareObject"
  by (simp add: processDocumentIngestion_def tryBlock_def catchBlock_def smallFile_def processChunk_def
      bareService_def complete_def bareObject_def)

text \<open>
  What does hold of the ingestion whatever the service does: it returns; when every call
  throws, returns no text or returns text that is not JSON, the result is the empty
  structure; and a chunked ingestion returns an object with all five fields.
\<close>

lemma ingestion_returns: "\<exists>v. processDocumentIngestion generateContent file = Some v"
proof (cases "type file = ''application/pdf'' \<or> length (LocalFile.content file) < 60000")
  case True
  then show ?thesis by (simp add: ingestion_direct)
next
  case False
  then have "type file \<noteq> ''application/pdf''" "60000 \<le> length (LocalFile.content file)" by auto
  from ingestion_chunked [OF this] show ?thesis by blast
qed

lemma complete_analysisFailed: "complete analysisFailed"
  by (simp add: complete_def analysisFailed_def)

lemma ingestion_chunked_complete:
  assumes "type file \<noteq> ''application/pdf''" and "60000 \<le> length (LocalFile.content file)"
  shows "\<exists>d. processDocumentIngestion generateContent file = Some (PObj d) \<and> complete d"
proof -
  from ingestion_chunked [OF assms] obtain chunks where
    r: "processDocumentIngestion generateContent file
          = Some (catchBlock (aggregateResults (processChunks generateContent 0 chunks (name file))))"
    by blast
  show ?thesis
  proof (cases "readResults (processChunks generateContent 0 chunks (name file))")
    case (Inl e)
    with r show ?thesis
      by (simp add: catchBlock_def aggregateResults_def complete_analysisFailed)
  next
    case (Inr ds)
    with r show ?thesis
      by (simp add: catchBlock_def aggregateResults_def complete_aggregate)
  qed
qed

lemma processChunks_throwing:
  "(\<And>k c p n. generateContent k c p n \<in> {CallThrows, NoText, Malformed}) \<Longrightarrow>
     processChunks generateContent k chunks fileName = replicate (length chunks) (PObj emptyStructure)"
proof (induction chunks arbitrary: k)
  case Nil
  then show ?case by simp
next
  case (Cons c cs)
  have "processChunk generateContent k c False fileName = PObj emptyStructure"
    using Cons.prems [of k c False fileName] by (auto simp: processChunk_def)
  with Cons show ?case by simp
qed

lemma readResults_replicate:
  "readResults (replicate n (PObj d)) = Inr (replicate n d)"
  by (induction n) simp_all

lemma concat_replicate_Nil: "concat (replicate n []) = []"
  by (induction n) simp_all

lemma aggregate_empties: "capSummary (aggregate (replicate n emptyStructure)) = emptyStructure"
  by (simp add: aggregate_def capSummary_def fromSet_def emptyStructure_def orEmpty_def
      truthySummaries_def concat_replicate_Nil)

lemma ingestion_fail_soft:
  assumes "\<And>k c p n. generateContent k c p n \<in> {CallThrows, NoText, Malformed}"
  shows "processDocumentIngestion generateContent file = Some (PObj emptyStructure)"
proof (cases "type file = ''application/pdf'' \<or> length (LocalFile.content file) < 60000")
  case True
  have "processChunk generateContent 0 (LocalFile.content file) (type file = ''application/pdf'') (name file)
      = PObj emptyStructure"
    using assms [of 0 "LocalFile.content file" "type file = ''application/pdf''" "name file"]
    by (auto simp: processChunk_def)
  with True show ?thesis by (simp add: ingestion_direct)
next
  case False
  then have "type file \<noteq> ''application/pdf''" "60000 \<le> length (LocalFile.content file)" by auto
  from ingestion_chunked [OF this, of generateContent] show ?thesis
    by (auto simp: processChunks_throwing [OF assms] readResults_replicate aggregateResults_def
        catchBlock_def aggregate_empties)
qed

section \<open>Properties of the chat session\<close>

subsection \<open>The hash of a file list\<close>

lemma join_Cons: "xs \<noteq> [] \<Longrightarrow> join sep (x # xs) = x @ sep @ join sep xs"
  by (cases xs) simp_all

lemma join_update_inj:
  "k < length xs \<Longrightarrow> join sep (xs[k := a]) = join sep xs \<Longrightarrow> a = xs ! k"
proof (induction xs arbitrary: k)
  case Nil
  then show ?case by simp
next
  case (Cons x xs)
  show ?case
  proof (cases k)
    case 0
    with Cons.prems show ?thesis
      by (cases "xs = []") (simp_all add: join_Cons)
  next
    case (Suc j)
    with Cons.prems have j: "j < length xs" and ne: "xs \<noteq> []" "xs[j := a] \<noteq> []"
      by auto
    from Cons.prems Suc ne have "join sep (xs[j := a]) = join sep xs"
      by (simp add: join_Cons)
    from Cons.IH [OF j this] Suc show ?thesis by simp
  qed
qed

lemma showNat_nonempty: "showNat n \<noteq> []"
  by (subst showNat.simps) simp

lemma of_char_digit: "d < 10 \<Longrightarrow> of_char (digit d) = (48 + d :: nat)"
proof -
  assume "d < 10"
  then have "d \<in> {0, 1, 2, 3, 4, 5, 6, 7, 8, 9}" by auto
  then show ?thesis by (auto simp: digit_def)
qed

lemma digit_inj: "d < 10 \<Longrightarrow> e < 10 \<Longrightarrow> digit d = digit e \<Longrightarrow> d = e"
  using of_char_digit [of d] of_char_digit [of e] by (metis add_left_cancel)

lemma digit_not_hyphen: "d < 10 \<Longrightarrow> digit d \<noteq> CHR ''-''"
  using of_char_digit [of d] by auto

lemma hyphen_notin_showNat: "CHR ''-'' \<notin> set (showNat n)"
proof (induction n rule: showNat.induct)
  case (1 n)
  show ?case
  proof (cases "n < 10")
    case True
    then show ?thesis by (subst showNat.simps) (simp add: digit_not_hyphen [THEN not_sym])
  next
    case False
    with 1 show ?thesis by (subst showNat.simps) (simp add: digit_not_hyphen [THEN not_sym])
  qed
qed

lemma showNat_inj: "showNat n = showNat m \<Longrightarrow> n = m"
proof (induction n arbitrary: m rule: showNat.induct)
  case (1 n)
  show ?case
  proof (cases "n < 10")
    case small: True
    show ?thesis
    proof (cases "m < 10")
      case True
      with small "1.prems" show ?thesis
        by (simp add: showNat.simps [of n] showNat.simps [of m] digit_inj)
    next
      case False
      with small "1.prems" showNat_nonempty [of "m div 10"] show ?thesis
        by (simp add: showNat.simps [of n] showNat.simps [of m])
    qed
  next
    case large: False
    show ?thesis
    proof (cases "m < 10")
      case True
      with large "1.prems" showNat_nonempty [of "n div 10"] show ?thesis
        by (simp add: showNat.simps [of n] showNat.simps [of m])
    next
      case False
      with large "1.prems" have "showNat (n div 10) = showNat (m div 10)"
        and "digit (n mod 10) = digit (m mod 10)"
        by (simp_all add: showNat.simps [of n] showNat.simps [of m])
      with "1.IH" [OF large] have "n div 10 = m div 10" and "n mod 10 = m mod 10"
        by (simp_all add: digit_inj)
      then show ?thesis by (metis div_mult_mod_eq)
    qed
  qed
qed

lemma takeWhile_upto: "c \<notin> set u \<Longrightarrow> takeWhile (\<lambda>a. a \<noteq> c) (u @ c # x) = u"
  by (induction u) auto

lemma split_at_last:
  assumes "c \<notin> set u" and "c \<notin> set v" and "x @ c # u = y @ c # v"
  shows "x = y \<and> u = v"
proof -
  from assms(3) have "rev u @ c # rev x = rev v @ c # rev y"
    by (metis rev_append rev.simps(2) append_assoc append_Cons append_Nil)
  moreover from assms(1,2) have "takeWhile (\<lambda>a. a \<noteq> c) (rev u @ c # rev x) = rev u"
    "takeWhile (\<lambda>a. a \<noteq> c) (rev v @ c # rev y) = rev v"
    by (simp_all add: takeWhile_upto)
  ultimately have "rev u = rev v" by metis
  with assms(3) show ?thesis by simp
qed

lemma fileTag_inj:
  assumes "name f @ ''-'' @ showNat (size' f) = name g @ ''-'' @ showNat (size' g)"
  shows "name f = name g \<and> size' f = size' g"
proof -
  from assms have "name f @ CHR ''-'' # showNat (size' f) = name g @ CHR ''-'' # showNat (size' g)"
    by simp
  from split_at_last [OF hyphen_notin_showNat hyphen_notin_showNat this]
  show ?thesis by (simp add: showNat_inj)
qed

lemma generateFileHash_update:
  assumes "k < length fs" and "name f \<noteq> name (fs ! k) \<or> size' f \<noteq> size' (fs ! k)"
  shows "generateFileHash (fs[k := f]) \<noteq> generateFileHash fs"
proof
  assume eq: "generateFileHash (fs[k := f]) = generateFileHash fs"
  let ?tag = "\<lambda>f. name f @ ''-'' @ showNat (size' f)"
  from eq have "join ''|'' ((map ?tag fs)[k := ?tag f]) = join ''|'' (map ?tag fs)"
    by (simp add: generateFileHash_def map_update)
  with assms(1) have "?tag f = ?tag (fs ! k)"
    using join_update_inj [of k "map ?tag fs" "''|''" "?tag f"] by simp
  from fileTag_inj [OF this] assms(2) show False by simp
qed

lemma showNat_digit: "n < 10 \<Longrightarrow> showNat n = [digit n]"
  by (subst showNat.simps) simp

lemma hash_firstSet: "generateFileHash firstSet = ''a-1|b-2|c-3''"
  by (simp add: generateFileHash_def firstSet_def showNat_digit digit_def)

lemma hash_secondSet: "generateFileHash secondSet = ''a-1|b-2|c-3''"
  by (simp add: generateFileHash_def secondSet_def showNat_digit digit_def)

subsection \<open>Sessions and system instruction\<close>

lemma foldl_append_lines: "foldl (\<lambda>context f. context @ g f) a xs = a @ concat (map g xs)"
  by (induction xs arbitrary: a) simp_all

lemma getSystemInstruction_cases:
  "getSystemInstruction fs =
     (if filter (\<lambda>f. processedData f \<noteq> None) fs \<noteq> []
      then instructionHead @ summaryIntro
             @ concat (map summaryLine (filter (\<lambda>f. processedData f \<noteq> None) fs)) @ summaryOutro
      else instructionHead @ rules)"
  by (simp add: getSystemInstruction_def Let_def foldl_append_lines)

lemma streamGeminiResponse_reuse:
  "chatSession st \<noteq> None \<Longrightarrow> generateFileHash fs = currentFileContextHash st \<Longrightarrow>
     streamGeminiResponse m fs st = st"
  by (simp add: streamGeminiResponse_def)

lemma streamGeminiResponse_create:
  "chatSession st = None \<or> generateFileHash fs \<noteq> currentFileContextHash st \<Longrightarrow>
     streamGeminiResponse m fs st
       = st\<lparr>chatSession := Some \<lparr>handle = created st, history = seedHistory fs,
                                  systemInstruction = getSystemInstruction fs\<rparr>,
             currentFileContextHash := generateFileHash fs,
             created := Suc (created st)\<rparr>"
  by (auto simp: streamGeminiResponse_def Let_def)

lemma reset_then_send:
  "chatSession (streamGeminiResponse m fs (resetChatSession st))
     = Some \<lparr>handle = created st, history = seedHistory fs, systemInstruction = getSystemInstruction fs\<rparr>"
  by (simp add: streamGeminiResponse_def resetChatSession_def)

lemma streamGeminiResponse_twice:
  "streamGeminiResponse m' fs (streamGeminiResponse m fs st) = streamGeminiResponse m fs st"
  by (simp add: streamGeminiResponse_def Let_def)

lemma enumerate_nth:
  "map (\<lambda>(index, x). g index x) (enumerate 0 xs) = map (\<lambda>k. g k (xs ! k)) [0..<length xs]"
  by (rule nth_equalityI) (simp_all add: nth_enumerate_eq)

lemma getFileParts_nth:
  "getFileParts fs =
     (if fs = [] then []
      else Text (''Here are the uploaded documents you need to analyze:'' @ [newline])
             # concat (map (\<lambda>k. partsOfFile k (fs ! k)) [0..<length fs]))"
  by (simp add: getFileParts_def enumerate_nth)

lemma seedHistory_parts:
  "seedHistory fs =
     (if fs = [] then []
      else [\<lparr>role = ''user'',
              parts = Text (''Here are the uploaded documents you need to analyze:'' @ [newline])
                # concat (map (\<lambda>k.
                    if type (fs ! k) = ''application/pdf''
                    then [Text ([newline] @ ''--- FILE '' @ showNat (k + 1) @ '': '' @ name (fs ! k) @ '' ---''
                                @ [newline]),
                          InlineData ''application/pdf'' (LocalFile.content (fs ! k))]
                    else [Text ([newline] @ ''--- FILE '' @ showNat (k + 1) @ '': '' @ name (fs ! k) @ '' ---''
                                @ [newline]
                                @ (if 200000 < length (LocalFile.content (fs ! k))
                                   then take 200000 (LocalFile.content (fs ! k)) @ [newline]
                                          @ ''...(Truncated for Chat)...''
                                   else LocalFile.content (fs ! k)))])
                    [0..<length fs])\<rparr>,
            \<lparr>role = ''model'', parts = [Text ''I have received the documents and their context.'']\<rparr>])"
proof -
  have "partsOfFile k g =
      (if type g = ''application/pdf''
       then [Text ([newline] @ ''--- FILE '' @ showNat (k + 1) @ '': '' @ name g @ '' ---'' @ [newline]),
             InlineData ''application/pdf'' (LocalFile.content g)]
       else [Text ([newline] @ ''--- FILE '' @ showNat (k + 1) @ '': '' @ name g @ '' ---'' @ [newline]
                   @ (if 200000 < length (LocalFile.content g)
                      then take 200000 (LocalFile.content g) @ [newline] @ ''...(Truncated for Chat)...''
                      else LocalFile.content g))])" for k g
    by (simp add: partsOfFile_def Let_def)
  then show ?thesis
    by (simp add: seedHistory_def getFileParts_nth Let_def)
qed

lemma seedHistory_longFile:
  "seedHistory [longFile]
     = [\<lparr>role = ''user'',
          parts = [Text (''Here are the uploaded documents you need to analyze:'' @ [newline]),
                   Text ([newline] @ ''--- FILE 1: big.txt ---'' @ [newline] @ replicate 200000 CHR ''z''
                         @ [newline] @ ''...(Truncated for Chat)...'')]\<rparr>,
        \<lparr>role = ''model'', parts = [Text ''I have received the documents and their context.'']\<rparr>]"
  by (simp add: seedHistory_parts longFile_def showNat_digit digit_def)

text \<open>
  C7, amended. With a session and an unchanged hash, \<open>streamGeminiResponse\<close> leaves the
  session, the stored hash and the number of sessions created as they are; in particular a
  second message with the same files reuses the session of the first. Without a session, or
  with a hash that differs from the stored one, it creates a session with the system
  instruction and with the seed history of the files, and stores the new hash. Changing the
  name or the size of one file of the list changes the hash. The seed history of no files is
  empty. The seed history of a list of files is a user turn and a model turn that
  acknowledges it; the user turn holds an introduction and then, for each file in order, a
  header with the number and the name of the file, followed for a PDF by its data, and for
  any other file by its text, of which only the first 200000 characters and a truncation
  mark are kept when it is longer. Two lists of files that differ in names and sizes can have
  the same hash.
\<close>

theorem session_reuse:
  "(chatSession st \<noteq> None \<and> generateFileHash fs = currentFileContextHash st
      \<longrightarrow> streamGeminiResponse m fs st = st)
   \<and> (chatSession st = None \<or> generateFileHash fs \<noteq> currentFileContextHash st
      \<longrightarrow> streamGeminiResponse m fs st
            = st\<lparr>chatSession := Some \<lparr>handle = created st, history = seedHistory fs,
                                       systemInstruction = getSystemInstruction fs\<rparr>,
                  currentFileContextHash := generateFileHash fs,
                  created := Suc (created st)\<rparr>)
   \<and> streamGeminiResponse m' fs (streamGeminiResponse m fs st) = streamGeminiResponse m fs st
   \<and> (k < length fs \<and> (name f \<noteq> name (fs ! k) \<or> size' f \<noteq> size' (fs ! k))
      \<longrightarrow> generateFileHash (fs[k := f]) \<noteq> generateFileHash fs)
   \<and> seedHistory fs =
       (if fs = [] then []
        else [\<lparr>role = ''user'',
                parts = Text (''Here are the uploaded documents you need to analyze:'' @ [newline])
                  # concat (map (\<lambda>k.
                      if type (fs ! k) = ''application/pdf''
                      then [Text ([newline] @ ''--- FILE '' @ showNat (k + 1) @ '': '' @ name (fs ! k) @ '' ---''
                                  @ [newline]),
                            InlineData ''application/pdf'' (LocalFile.content (fs ! k))]
                      else [Text ([newline] @ ''--- FILE '' @ showNat (k + 1) @ '': '' @ name (fs ! k) @ '' ---''
                                  @ [newline]
                                  @ (if 200000 < length (LocalFile.content (fs ! k))
                                     then take 200000 (LocalFile.content (fs ! k)) @ [newline]
                                            @ ''...(Truncated for Chat)...''
                                     else LocalFile.content (fs ! k)))])
                      [0..<length fs])\<rparr>,
              \<lparr>role = ''model'', parts = [Text ''I have received the documents and their context.'']\<rparr>])
   \<and> generateFileHash firstSet = generateFileHash secondSet
   \<and> map name firstSet \<noteq> map name secondSet \<and> map size' firstSet \<noteq> map size' secondSet"
proof -
  have "map name firstSet \<noteq> map name secondSet" "map size' firstSet \<noteq> map size' secondSet"
    by (simp_all add: firstSet_def secondSet_def)
  moreover have "generateFileHash firstSet = generateFileHash secondSet"
    by (simp add: hash_firstSet hash_secondSet)
  ultimately show ?thesis
    using streamGeminiResponse_reuse [of st fs m] streamGeminiResponse_create [of st fs m]
      streamGeminiResponse_twice [of m' fs m st] generateFileHash_update [of k fs f]
      seedHistory_parts [of fs]
    by blast
qed

text \<open>
  C7 as stated fails. The two files of \<open>firstSet\<close> and the two files of \<open>secondSet\<close> differ
  in their names and sizes, and both sets have the hash \<open>a-1|b-2|c-3\<close>. A message with
  \<open>secondSet\<close> after a message with \<open>firstSet\<close> reuses the session that was seeded with
  \<open>firstSet\<close>. And a new session is not seeded with the whole of a long text: for a file of
  200001 characters the session created holds the first 200000 of them and a truncation
  mark.
\<close>

theorem fingerprint_collision:
  "map name firstSet \<noteq> map name secondSet
   \<and> map size' firstSet \<noteq> map size' secondSet
   \<and> generateFileHash firstSet = generateFileHash secondSet
   \<and> chatSession (streamGeminiResponse ''q1'' firstSet initialSession)
        = Some \<lparr>handle = 0, history = seedHistory firstSet, systemInstruction = getSystemInstruction firstSet\<rparr>
   \<and> streamGeminiResponse ''q2'' secondSet (streamGeminiResponse ''q1'' firstSet initialSession)
        = streamGeminiResponse ''q1'' firstSet initialSession
   \<and> seedHistory secondSet \<noteq> seedHistory firstSet
   \<and> LocalFile.content longFile = replicate 200001 CHR ''z''
   \<and> chatSession (streamGeminiResponse ''q1'' [longFile] initialSession)
        = Some \<lparr>handle = 0,
                history =
                  [\<lparr>role = ''user'',
                     parts = [Text (''Here are the uploaded documents you need to analyze:'' @ [newline]),
                              Text ([newline] @ ''--- FILE 1: big.txt ---'' @ [newline]
                                    @ replicate 200000 CHR ''z'' @ [newline] @ ''...(Truncated for Chat)...'')]\<rparr>,
                   \<lparr>role = ''model'', parts = [Text ''I have received the documents and their context.'']\<rparr>],
                systemInstruction = instructionHead @ rules\<rparr>"
proof -
  have a: "map name firstSet \<noteq> map name secondSet" "map size' firstSet \<noteq> map size' secondSet"
    by (simp_all add: firstSet_def secondSet_def)
  have h: "generateFileHash firstSet = generateFileHash secondSet"
    by (simp add: hash_firstSet hash_secondSet)
  have s1: "streamGeminiResponse ''q1'' firstSet initialSession
      = \<lparr>chatSession = Some \<lparr>handle = 0, history = seedHistory firstSet,
                               systemInstruction = getSystemInstruction firstSet\<rparr>,
         currentFileContextHash = generateFileHash firstSet, created = Suc 0\<rparr>"
    by (simp add: streamGeminiResponse_def initialSession_def)
  have s2: "streamGeminiResponse ''q2'' secondSet (streamGeminiResponse ''q1'' firstSet initialSession)
        = streamGeminiResponse ''q1'' firstSet initialSession"
    by (simp add: s1 streamGeminiResponse_reuse h)
  have d: "seedHistory secondSet \<noteq> seedHistory firstSet"
    by (simp add: seedHistory_def getFileParts_def partsOfFile_def firstSet_def secondSet_def enumerate_eq_zip)
  have l: "LocalFile.content longFile = replicate 200001 CHR ''z''"
    by (simp add: longFile_def)
  have i: "getSystemInstruction [longFile] = instructionHead @ rules"
    by (simp add: getSystemInstruction_cases longFile_def)
  have t: "chatSession (streamGeminiResponse ''q1'' [longFile] initialSession)
        = Some \<lparr>handle = 0,
                history =
                  [\<lparr>role = ''user'',
                     parts = [Text (''Here are the uploaded documents you need to analyze:'' @ [newline]),
                              Text ([newline] @ ''--- FILE 1: big.txt ---'' @ [newline]
                                    @ replicate 200000 CHR ''z'' @ [newline] @ ''...(Truncated for Chat)...'')]\<rparr>,
                   \<lparr>role = ''model'', parts = [Text ''I have received the documents and their context.'']\<rparr>],
                systemInstruction = instructionHead @ rules\<rparr>"
    by (simp add: streamGeminiResponse_def initialSession_def seedHistory_longFile i)
  from a h s1 s2 d l t show ?thesis by simp
qed

text \<open>
  C7, amended: the first message creates a session, the second one with the same files
  reuses it, and replacing the first file by one of another name changes the hash. A session
  for a text file, a PDF and a text file of 200001 characters is seeded with the text of the
  first, the data of the second and the first 200000 characters of the third.
\<close>

theorem session_reuse_witness:
  "chatSession initialSession = None
   \<and> streamGeminiResponse ''q1'' firstSet initialSession
       = initialSession\<lparr>chatSession := Some \<lparr>handle = created initialSession, history = seedHistory firstSet,
                                                 systemInstruction = getSystemInstruction firstSet\<rparr>,
                        currentFileContextHash := generateFileHash firstSet,
                        created := Suc (created initialSession)\<rparr>
   \<and> chatSession (streamGeminiResponse ''q1'' firstSet initialSession) \<noteq> None
   \<and> generateFileHash firstSet = currentFileContextHash (streamGeminiResponse ''q1'' firstSet initialSession)
   \<and> streamGeminiResponse ''q2'' firstSet (streamGeminiResponse ''q1'' firstSet initialSession)
       = streamGeminiResponse ''q1'' firstSet initialSession
   \<and> 0 < length firstSet \<and> name pendingFile \<noteq> name (firstSet ! 0)
   \<and> generateFileHash (firstSet[0 := pendingFile]) \<noteq> generateFileHash firstSet
   \<and> seedHistory [ingestedFile, scanFile, longFile]
       = [\<lparr>role = ''user'',
            parts = [Text (''Here are the uploaded documents you need to analyze:'' @ [newline]),
                     Text ([newline] @ ''--- FILE 1: a.txt ---'' @ [newline] @ ''alpha''),
                     Text ([newline] @ ''--- FILE 2: scan.pdf ---'' @ [newline]),
                     InlineData ''application/pdf'' ''JVBERi0='',
                     Text ([newline] @ ''--- FILE 3: big.txt ---'' @ [newline] @ replicate 200000 CHR ''z''
                           @ [newline] @ ''...(Truncated for Chat)...'')]\<rparr>,
          \<lparr>role = ''model'', parts = [Text ''I have received the documents and their context.'']\<rparr>]
   \<and> seedHistory [] = []"
proof -
  have n: "chatSession initialSession = None" by (simp add: initialSession_def)
  have s: "chatSession (streamGeminiResponse ''q1'' firstSet initialSession) \<noteq> None"
    "generateFileHash firstSet = currentFileContextHash (streamGeminiResponse ''q1'' firstSet initialSession)"
    by (simp_all add: streamGeminiResponse_def initialSession_def)
  have k: "0 < length firstSet" "name pendingFile \<noteq> name (firstSet ! 0)"
    by (simp_all add: firstSet_def pendingFile_def)
  have r: "streamGeminiResponse ''q1'' firstSet initialSession
       = initialSession\<lparr>chatSession := Some \<lparr>handle = created initialSession, history = seedHistory firstSet,
                                                 systemInstruction = getSystemInstruction firstSet\<rparr>,
                        currentFileContextHash := generateFileHash firstSet,
                        created := Suc (created initialSession)\<rparr>"
    "streamGeminiResponse ''q2'' firstSet (streamGeminiResponse ''q1'' firstSet initialSession)
       = streamGeminiResponse ''q1'' firstSet initialSession"
    "generateFileHash (firstSet[0 := pendingFile]) \<noteq> generateFileHash firstSet"
    using n s k
      session_reuse [of initialSession firstSet "''q1''" "''q2''" 0 pendingFile]
      session_reuse [of "streamGeminiResponse ''q1'' firstSet initialSession" firstSet "''q2''" "''q2''" 0 pendingFile]
    by blast+
  have three: "seedHistory [ingestedFile, scanFile, longFile]
       = [\<lparr>role = ''user'',
            parts = [Text (''Here are the uploaded documents you need to analyze:'' @ [newline]),
                     Text ([newline] @ ''--- FILE 1: a.txt ---'' @ [newline] @ ''alpha''),
                     Text ([newline] @ ''--- FILE 2: scan.pdf ---'' @ [newline]),
                     InlineData ''application/pdf'' ''JVBERi0='',
                     Text ([newline] @ ''--- FILE 3: big.txt ---'' @ [newline] @ replicate 200000 CHR ''z''
                           @ [newline] @ ''...(Truncated for Chat)...'')]\<rparr>,
          \<lparr>role = ''model'', parts = [Text ''I have received the documents and their context.'']\<rparr>]"
    using session_reuse [of initialSession "[ingestedFile, scanFile, longFile]" "''q1''" "''q2''" 0 pendingFile,
        THEN conjunct2, THEN conjunct2, THEN conjunct2, THEN conjunct2, THEN conjunct1]
    by (simp add: ingestedFile_def scanFile_def longFile_def showNat_digit digit_def)
  have none: "seedHistory [] = []"
    using session_reuse [of initialSession "[]" "''q1''" "''q2''" 0 pendingFile,
        THEN conjunct2, THEN conjunct2, THEN conjunct2, THEN conjunct2, THEN conjunct1]
    by simp
  from n s k r three none show ?thesis by (intro conjI)
qed

text \<open>
  C8 as stated fails. Of two files one has been ingested and one has not: the instruction is
  built from the summary of the ingested file, not from the rules. With no file at all, where
  every file has been ingested, the instruction is built from the rules.
\<close>

theorem instruction_with_pending_file:
  "processedData ingestedFile \<noteq> None \<and> processedData pendingFile = None
   \<and> getSystemInstruction [ingestedFile, pendingFile]
       = instructionHead @ summaryIntro @ summaryLine ingestedFile @ summaryOutro
   \<and> getSystemInstruction [ingestedFile, pendingFile] \<noteq> instructionHead @ rules
   \<and> getSystemInstruction [] = instructionHead @ rules"
proof -
  have p: "processedData ingestedFile \<noteq> None" "processedData pendingFile = None"
    by (simp_all add: ingestedFile_def pendingFile_def)
  then have a: "getSystemInstruction [ingestedFile, pendingFile]
       = instructionHead @ summaryIntro @ summaryLine ingestedFile @ summaryOutro"
    by (simp add: getSystemInstruction_cases)
  have "summaryIntro @ summaryLine ingestedFile @ summaryOutro \<noteq> rules"
    by (simp add: summaryIntro_def rules_def)
  with a have b: "getSystemInstruction [ingestedFile, pendingFile] \<noteq> instructionHead @ rules"
    by simp
  have c: "getSystemInstruction [] = instructionHead @ rules"
    by (simp add: getSystemInstruction_cases)
  from p a b c show ?thesis by simp
qed

text \<open>
  C8, amended. The system instruction is built from the summaries of the files that have
  \<open>processedData\<close> when at least one file has it, and from the rules when none has.
\<close>

theorem system_instruction_source:
  "getSystemInstruction fs =
     (if \<exists>f \<in> set fs. processedData f \<noteq> None
      then instructionHead @ summaryIntro
             @ concat (map summaryLine (filter (\<lambda>f. processedData f \<noteq> None) fs)) @ summaryOutro
      else instructionHead @ rules)"
  by (simp add: getSystemInstruction_cases filter_empty_conv)

text \<open>
  C8, amended, at one ingested and one pending file, and at two pending files.
\<close>

theorem system_instruction_source_witness:
  "getSystemInstruction [ingestedFile, pendingFile]
     = instructionHead @ summaryIntro @ summaryLine ingestedFile @ summaryOutro
   \<and> getSystemInstruction [pendingFile, pendingFile] = instructionHead @ rules"
  using system_instruction_source [of "[ingestedFile, pendingFile]"]
    system_instruction_source [of "[pendingFile, pendingFile]"]
  by (simp add: ingestedFile_def pendingFile_def)

section \<open>Properties of the knowledge graph\<close>

lemma childTerms_example:
  "childTerms exampleCache ''ROOT'' = {''X''}" "childTerms exampleCache ''A'' = {}"
  "childTerms exampleCache ''X'' = {}"
  by (simp_all add: childTerms_def exampleCache_def)

lemma dom_example: "dom exampleCache = {''ROOT'', ''A'', ''X''}"
  by (auto simp: exampleCache_def)

lemma singleParent_example: "singleParent exampleCache"
  by (simp add: singleParent_def dom_example childTerms_example)

lemma lookup_Node: "lookup prev key = Some (Node n) \<longleftrightarrow> prev key = Some (Node n)"
  by (simp add: lookup_def split: option.splits)

lemma lookup_own: "prev key = Some v \<Longrightarrow> lookup prev key = Some v"
  by (simp add: lookup_def)

lemma lookup_None: "lookup prev key = None \<longleftrightarrow> prev key = None \<and> key \<notin> set prototypeKeys"
  by (simp add: lookup_def split: option.splits)

lemma ROOT_not_inherited: "''ROOT'' \<notin> set prototypeKeys"
  by (simp add: prototypeKeys_def)

subsection \<open>Adding an entry\<close>

lemma add_to_node:
  assumes "prev parentNode = Some (Node n)"
  shows "handleWikiAddManualEntry t d parentNode prev
     = Inr ((prev(parentNode \<mapsto>
                Node (n\<lparr>entries := entries n @ [\<lparr>term' = t, definition' = d,
                                                    relatedContext = ''Manually added by user''\<rparr>]\<rparr>)))
              (t \<mapsto> (case lookup prev t of
                         Some v \<Rightarrow> v
                       | None \<Rightarrow> Node \<lparr>entries = [], content = Some d, files = Some []\<rparr>)))"
  using assms lookup_own [of prev parentNode "Node n"]
  by (simp add: handleWikiAddManualEntry_def Let_def)

lemma add_to_root:
  assumes "prev parentNode = None" and "parentNode \<notin> set prototypeKeys" and "prev ''ROOT'' = Some (Node n)"
  shows "handleWikiAddManualEntry t d parentNode prev
     = Inr ((prev(''ROOT'' \<mapsto>
                Node (n\<lparr>entries := entries n @ [\<lparr>term' = t, definition' = d,
                                                    relatedContext = ''Manually added by user''\<rparr>]\<rparr>)))
              (t \<mapsto> (case lookup prev t of
                         Some v \<Rightarrow> v
                       | None \<Rightarrow> Node \<lparr>entries = [], content = Some d, files = Some []\<rparr>)))"
proof -
  from assms(1,2) have "lookup prev parentNode = None" by (simp add: lookup_None)
  moreover from assms(3) have "lookup prev ''ROOT'' = Some (Node n)" by (simp add: lookup_def)
  ultimately show ?thesis by (simp add: handleWikiAddManualEntry_def Let_def)
qed

lemma add_to_new_root:
  assumes "prev parentNode = None" and "parentNode \<notin> set prototypeKeys" and "prev ''ROOT'' = None"
  shows "handleWikiAddManualEntry t d parentNode prev
     = Inr ((prev(''ROOT'' \<mapsto>
                Node \<lparr>entries = [\<lparr>term' = t, definition' = d, relatedContext = ''Manually added by user''\<rparr>],
                      content = Some [], files = Some []\<rparr>))
              (t \<mapsto> (case lookup prev t of
                         Some v \<Rightarrow> v
                       | None \<Rightarrow> Node \<lparr>entries = [], content = Some d, files = Some []\<rparr>)))"
proof -
  from assms(1,2) have "lookup prev parentNode = None" by (simp add: lookup_None)
  moreover from assms(3) have "lookup prev ''ROOT'' = None" by (simp add: lookup_None ROOT_not_inherited)
  ultimately show ?thesis by (simp add: handleWikiAddManualEntry_def Let_def)
qed

lemma add_self_noop:
  assumes "prev t = Some (Node n)"
  shows "handleWikiAddManualEntry t d t prev = Inr prev"
proof -
  have "prev(t \<mapsto> Node n) = prev"
    using assms by (simp add: fun_upd_idem)
  with assms add_to_node [of prev t n t d] lookup_own [of prev t "Node n"] show ?thesis by simp
qed

text \<open>
  A parent name that the cache does not hold but \<open>Object.prototype\<close> does is taken as an
  existing parent: the entry goes to a new node of that name, not to \<open>ROOT\<close>; for the name
  \<open>constructor\<close> the updater throws.
\<close>

lemma add_inherited_parent:
  assumes "prev parentNode = None" and "parentNode \<in> set prototypeKeys"
  shows "handleWikiAddManualEntry t d parentNode prev
     = (if parentNode = ''constructor'' then Inl TypeError
        else Inr ((prev(parentNode \<mapsto>
                Node \<lparr>entries = [\<lparr>term' = t, definition' = d, relatedContext = ''Manually added by user''\<rparr>],
                      content = None, files = None\<rparr>))
              (t \<mapsto> (case lookup prev t of
                         Some v \<Rightarrow> v
                       | None \<Rightarrow> Node \<lparr>entries = [], content = Some d, files = Some []\<rparr>))))"
proof -
  from assms have "lookup prev parentNode = Some (Inherited parentNode)" by (simp add: lookup_def)
  then show ?thesis by (simp add: handleWikiAddManualEntry_def Let_def)
qed

lemma add_under_toString:
  "cacheAfter exampleCache (handleWikiAddManualEntry ''Y'' ''d'' ''toString'' exampleCache) ''toString''
     = Some (Node \<lparr>entries = [\<lparr>term' = ''Y'', definition' = ''d'', relatedContext = ''Manually added by user''\<rparr>],
                   content = None, files = None\<rparr>)
   \<and> cacheAfter exampleCache (handleWikiAddManualEntry ''Y'' ''d'' ''toString'' exampleCache) ''ROOT''
     = exampleCache ''ROOT''"
proof -
  have "exampleCache ''toString'' = None" "''toString'' \<in> set prototypeKeys"
    by (simp_all add: exampleCache_def prototypeKeys_def)
  with add_inherited_parent [of exampleCache "''toString''" "''Y''" "''d''"] show ?thesis
    by (simp add: cacheAfter_def)
qed

text \<open>
  C2 as stated fails. In \<open>exampleCache\<close> the term X is listed by \<open>ROOT\<close> only. Adding X under
  A is not rejected: afterwards \<open>ROOT\<close> and A both list X.
\<close>

theorem duplicate_parent_by_add:
  "singleParent exampleCache
   \<and> handleWikiAddManualEntry ''X'' ''d'' ''A'' exampleCache
       = Inr (exampleCache(''A'' \<mapsto>
                Node \<lparr>entries = [\<lparr>term' = ''X'', definition' = ''d'', relatedContext = ''Manually added by user''\<rparr>],
                      content = Some [], files = Some []\<rparr>))
   \<and> childTerms (cacheAfter exampleCache (handleWikiAddManualEntry ''X'' ''d'' ''A'' exampleCache)) ''ROOT'' = {''X''}
   \<and> childTerms (cacheAfter exampleCache (handleWikiAddManualEntry ''X'' ''d'' ''A'' exampleCache)) ''A'' = {''X''}
   \<and> \<not> singleParent (cacheAfter exampleCache (handleWikiAddManualEntry ''X'' ''d'' ''A'' exampleCache))
   \<and> cacheAfter exampleCache (handleWikiAddManualEntry ''X'' ''d'' ''A'' exampleCache) \<noteq> exampleCache"
proof -
  let ?e = "\<lparr>term' = ''X'', definition' = ''d'', relatedContext = ''Manually added by user''\<rparr>"
  let ?c = "exampleCache(''A'' \<mapsto> Node \<lparr>entries = [?e], content = Some [], files = Some []\<rparr>)"
  have x: "exampleCache ''X'' = Some (Node \<lparr>entries = [], content = Some ''d'', files = Some []\<rparr>)"
    and ea: "exampleCache ''A'' = Some (Node \<lparr>entries = [], content = Some [], files = Some []\<rparr>)"
    by (simp_all add: exampleCache_def)
  have "?c(''X'' \<mapsto> Node \<lparr>entries = [], content = Some ''d'', files = Some []\<rparr>) = ?c"
    by (rule fun_upd_idem) (simp add: x)
  with ea x add_to_node [of exampleCache "''A''" _ "''X''" "''d''"]
    lookup_own [of exampleCache "''X''"]
  have res: "handleWikiAddManualEntry ''X'' ''d'' ''A'' exampleCache = Inr ?c"
    by simp
  have after: "cacheAfter exampleCache (handleWikiAddManualEntry ''X'' ''d'' ''A'' exampleCache) = ?c"
    by (simp add: res cacheAfter_def)
  have r: "childTerms ?c ''ROOT'' = {''X''}"
    by (simp add: childTerms_def exampleCache_def)
  have a: "childTerms ?c ''A'' = {''X''}"
    by (simp add: childTerms_def)
  have d: "''ROOT'' \<in> dom ?c" "''A'' \<in> dom ?c"
    by (simp_all add: exampleCache_def)
  have n: "\<not> singleParent ?c"
  proof
    assume "singleParent ?c"
    with d have "''ROOT'' \<noteq> ''A'' \<longrightarrow> childTerms ?c ''ROOT'' \<inter> childTerms ?c ''A'' = {}"
      unfolding singleParent_def by blast
    with r a show False by simp
  qed
  have m: "?c \<noteq> exampleCache"
  proof
    assume "?c = exampleCache"
    then have "childTerms ?c ''A'' = childTerms exampleCache ''A''" by (rule arg_cong)
    with a childTerms_example(2) show False by simp
  qed
  from singleParent_example res r a n m show ?thesis
    unfolding after by (intro conjI)
qed

subsection \<open>Moving an entry\<close>

lemma move_same_parent:
  "currentTerm path = Some newParent \<Longrightarrow> handleWikiMoveNode t d newParent path prev = Inr prev"
  by (simp add: handleWikiMoveNode_def)

lemma childTerms_Node:
  "t \<in> childTerms prev p \<longleftrightarrow> (\<exists>n. prev p = Some (Node n) \<and> t \<in> set (map term' (entries n)))"
  by (auto simp: childTerms_def split: option.splits CacheValue.splits)

lemma move_duplicate_result:
  assumes "t \<in> childTerms prev newParent"
  shows "handleWikiMoveNode t d newParent path prev
     = (if currentTerm path = Some newParent then Inr prev
        else case prev (keyOf (currentTerm path)) of Some (Node old) \<Rightarrow> Inr prev | _ \<Rightarrow> Inl TypeError)"
proof -
  from assms obtain n where n: "prev newParent = Some (Node n)" "t \<in> set (map term' (entries n))"
    by (auto simp: childTerms_Node)
  then have ex: "list_ex (\<lambda>e. term' e = t) (entries n)"
    by (auto simp: list_ex_iff)
  from n(1) have l: "lookup prev newParent = Some (Node n)" by (simp add: lookup_def)
  show ?thesis
  proof (cases "currentTerm path = Some newParent")
    case True
    then show ?thesis by (simp add: handleWikiMoveNode_def)
  next
    case cur: False
    show ?thesis
    proof (cases "lookup prev (keyOf (currentTerm path))")
      case None
      then have "prev (keyOf (currentTerm path)) = None" by (simp add: lookup_None)
      with cur None show ?thesis by (simp add: handleWikiMoveNode_def)
    next
      case (Some v)
      show ?thesis
      proof (cases v)
        case (Node old)
        with Some have "prev (keyOf (currentTerm path)) = Some (Node old)" by (simp add: lookup_Node)
        with cur Some Node l ex show ?thesis by (simp add: handleWikiMoveNode_def Let_def)
      next
        case (Inherited k)
        with Some have "\<And>old. prev (keyOf (currentTerm path)) \<noteq> Some (Node old)"
          by (auto simp: lookup_def split: option.splits if_splits)
        with cur Some Inherited show ?thesis
          by (simp add: handleWikiMoveNode_def split: option.splits CacheValue.splits)
      qed
    qed
  qed
qed

lemma move_duplicate:
  assumes "t \<in> childTerms prev newParent"
  shows "cacheAfter prev (handleWikiMoveNode t d newParent path prev) = prev"
  using assms move_duplicate_result [of t prev newParent d path]
  by (simp add: cacheAfter_def split: option.splits CacheValue.splits)

lemma move_cases:
  "cacheAfter prev (handleWikiMoveNode t d newParent path prev) = prev
   \<or> (\<exists>old np. prev (keyOf (currentTerm path)) = Some (Node old) \<and> t \<notin> childTerms prev newParent
        \<and> (prev newParent = Some (Node np)
            \<or> prev newParent = None \<and> np = \<lparr>entries = [], content = Some [], files = Some []\<rparr>)
        \<and> cacheAfter prev (handleWikiMoveNode t d newParent path prev)
          = (prev(keyOf (currentTerm path) \<mapsto> Node (old\<lparr>entries := filter (\<lambda>e. term' e \<noteq> t) (entries old)\<rparr>)))
              (newParent \<mapsto>
                 Node (np\<lparr>entries := entries np
                    @ [\<lparr>term' = t, definition' = d,
                        relatedContext = ''Moved from '' @ keyOf (currentTerm path)\<rparr>]\<rparr>)))"
proof (cases "currentTerm path = Some newParent")
  case True
  then show ?thesis by (simp add: handleWikiMoveNode_def cacheAfter_def)
next
  case cur: False
  show ?thesis
  proof (cases "lookup prev (keyOf (currentTerm path))")
    case None
    with cur show ?thesis by (simp add: handleWikiMoveNode_def cacheAfter_def)
  next
    case (Some v)
    show ?thesis
    proof (cases v)
      case (Inherited k)
      with Some cur show ?thesis by (simp add: handleWikiMoveNode_def cacheAfter_def)
    next
      case (Node old)
      with Some have old: "prev (keyOf (currentTerm path)) = Some (Node old)"
        by (simp add: lookup_Node)
      show ?thesis
      proof (cases "lookup prev newParent")
        case None
        then have np: "prev newParent = None" by (simp add: lookup_None)
        then have "t \<notin> childTerms prev newParent" by (simp add: childTerms_def)
        with cur Some Node None old np show ?thesis
          by (simp add: handleWikiMoveNode_def cacheAfter_def Let_def)
      next
        case new: (Some w)
        show ?thesis
        proof (cases w)
          case (Inherited k)
          with cur Some Node new show ?thesis
            by (simp add: handleWikiMoveNode_def cacheAfter_def Let_def)
        next
          case np: (Node n)
          with new have pn: "prev newParent = Some (Node n)" by (simp add: lookup_Node)
          show ?thesis
          proof (cases "list_ex (\<lambda>e. term' e = t) (entries n)")
            case True
            with cur Some Node new np show ?thesis
              by (simp add: handleWikiMoveNode_def cacheAfter_def Let_def)
          next
            case False
            with pn have "t \<notin> childTerms prev newParent"
              by (auto simp: childTerms_def list_ex_iff)
            with cur Some Node new np False old pn show ?thesis
              by (simp add: handleWikiMoveNode_def cacheAfter_def Let_def)
          qed
        qed
      qed
    qed
  qed
qed

lemma move_preserves:
  assumes inv: "singleParent prev"
    and only: "\<forall>q \<in> dom prev. q \<noteq> keyOf (currentTerm path) \<longrightarrow> t \<notin> childTerms prev q"
  shows "singleParent (cacheAfter prev (handleWikiMoveNode t d newParent path prev))"
proof -
  let ?c = "cacheAfter prev (handleWikiMoveNode t d newParent path prev)"
  let ?K = "keyOf (currentTerm path)"
  show ?thesis
  proof (cases "?c = prev")
    case True
    with inv show ?thesis by simp
  next
    case False
    with move_cases [of prev t d newParent path] obtain old np where
      old: "prev ?K = Some (Node old)" and fresh: "t \<notin> childTerms prev newParent" and
      np: "prev newParent = Some (Node np)
            \<or> prev newParent = None \<and> np = \<lparr>entries = [], content = Some [], files = Some []\<rparr>" and
      c: "?c = (prev(?K \<mapsto> Node (old\<lparr>entries := filter (\<lambda>e. term' e \<noteq> t) (entries old)\<rparr>)))
              (newParent \<mapsto>
                 Node (np\<lparr>entries := entries np
                    @ [\<lparr>term' = t, definition' = d, relatedContext = ''Moved from '' @ ?K\<rparr>]\<rparr>))"
      by blast
    have new: "childTerms ?c newParent = childTerms prev newParent \<union> {t}"
      using np by (auto simp: c childTerms_def)
    have cur: "childTerms ?c ?K = childTerms prev ?K - {t}" if "?K \<noteq> newParent"
      using that old by (auto simp: c childTerms_def)
    have rest: "childTerms ?c x = childTerms prev x" if "x \<noteq> newParent" "x \<noteq> ?K" for x
      using that by (simp add: c childTerms_def)
    have other: "z \<in> childTerms prev x" if "z \<in> childTerms ?c x" "z \<noteq> t" for z x
    proof (cases "x = newParent")
      case True
      with that new show ?thesis by simp
    next
      case False
      with that cur rest show ?thesis by (cases "x = ?K") auto
    qed
    have moved: "x = newParent" if "t \<in> childTerms ?c x" for x
    proof (rule ccontr)
      assume ne: "x \<noteq> newParent"
      show False
      proof (cases "x = ?K")
        case True
        with that ne cur show False by simp
      next
        case False
        with that ne rest have "t \<in> childTerms prev x" by simp
        moreover from this have "x \<in> dom prev" by (auto simp: childTerms_Node)
        ultimately show False using only False by blast
      qed
    qed
    show ?thesis
      unfolding singleParent_def
    proof (intro ballI impI)
      fix p q
      assume "p \<in> dom ?c" "q \<in> dom ?c" and pq: "p \<noteq> q"
      show "childTerms ?c p \<inter> childTerms ?c q = {}"
      proof (rule ccontr)
        assume "childTerms ?c p \<inter> childTerms ?c q \<noteq> {}"
        then obtain z where z: "z \<in> childTerms ?c p" "z \<in> childTerms ?c q" by blast
        show False
        proof (cases "z = t")
          case True
          with z moved pq show False by blast
        next
          case False
          with z other have zz: "z \<in> childTerms prev p" "z \<in> childTerms prev q" by blast+
          then have "p \<in> dom prev" "q \<in> dom prev"
            by (auto simp: childTerms_Node)
          with inv pq zz show False unfolding singleParent_def by blast
        qed
      qed
    qed
  qed
qed

text \<open>
  C2, amended. \<open>handleWikiMoveNode\<close> returns without an update when the new parent is the
  current node. When the new parent already lists the term the cache stays as it is: the
  updater returns the cache it was given where the current node has a node record, and
  throws where it has none. When no node other than the current one lists the term, a move
  keeps the invariant that no term is listed by two nodes. \<open>handleWikiAddManualEntry\<close> makes
  no check of the entries of any node. Where the parent named has a node record, the entry
  is appended to the entries of that node. Where the cache holds nothing under the parent
  named, and the name is not that of a property of \<open>Object.prototype\<close>, the entry is
  appended to the entries of \<open>ROOT\<close>, or becomes the one entry of a new node \<open>ROOT\<close>. In
  each case the key of the term is then set to the value found under the term, or, where
  there is none, to a new node without entries whose content is the definition; so a term
  that has a node record and is added under itself leaves the cache as it was.
\<close>

theorem move_guarded:
  "(currentTerm path = Some newParent \<longrightarrow> handleWikiMoveNode t d newParent path prev = Inr prev)
   \<and> (t \<in> childTerms prev newParent
        \<longrightarrow> cacheAfter prev (handleWikiMoveNode t d newParent path prev) = prev)
   \<and> (t \<in> childTerms prev newParent
        \<longrightarrow> handleWikiMoveNode t d newParent path prev
              = (if currentTerm path = Some newParent then Inr prev
                 else case prev (keyOf (currentTerm path)) of
                        Some (Node old) \<Rightarrow> Inr prev
                      | _ \<Rightarrow> Inl TypeError))
   \<and> (singleParent prev \<and> listedOnlyUnder prev t (keyOf (currentTerm path))
        \<longrightarrow> singleParent (cacheAfter prev (handleWikiMoveNode t d newParent path prev)))
   \<and> (prev parentNode = Some (Node n)
        \<longrightarrow> handleWikiAddManualEntry t d parentNode prev
              = Inr ((prev(parentNode \<mapsto>
                        Node (n\<lparr>entries := entries n @ [\<lparr>term' = t, definition' = d,
                                                            relatedContext = ''Manually added by user''\<rparr>]\<rparr>)))
                      (t \<mapsto> (case lookup prev t of
                                 Some v \<Rightarrow> v
                               | None \<Rightarrow> Node \<lparr>entries = [], content = Some d, files = Some []\<rparr>))))
   \<and> (prev parentNode = None \<and> parentNode \<notin> set prototypeKeys \<and> prev ''ROOT'' = Some (Node n)
        \<longrightarrow> handleWikiAddManualEntry t d parentNode prev
              = Inr ((prev(''ROOT'' \<mapsto>
                        Node (n\<lparr>entries := entries n @ [\<lparr>term' = t, definition' = d,
                                                            relatedContext = ''Manually added by user''\<rparr>]\<rparr>)))
                      (t \<mapsto> (case lookup prev t of
                                 Some v \<Rightarrow> v
                               | None \<Rightarrow> Node \<lparr>entries = [], content = Some d, files = Some []\<rparr>))))
   \<and> (prev parentNode = None \<and> parentNode \<notin> set prototypeKeys \<and> prev ''ROOT'' = None
        \<longrightarrow> handleWikiAddManualEntry t d parentNode prev
              = Inr ((prev(''ROOT'' \<mapsto>
                        Node \<lparr>entries = [\<lparr>term' = t, definition' = d,
                                          relatedContext = ''Manually added by user''\<rparr>],
                              content = Some [], files = Some []\<rparr>))
                      (t \<mapsto> (case lookup prev t of
                                 Some v \<Rightarrow> v
                               | None \<Rightarrow> Node \<lparr>entries = [], content = Some d, files = Some []\<rparr>))))
   \<and> (prev t = Some (Node n) \<longrightarrow> handleWikiAddManualEntry t d t prev = Inr prev)"
proof (intro conjI impI)
  show "handleWikiMoveNode t d newParent path prev = Inr prev" if "currentTerm path = Some newParent"
    using that by (rule move_same_parent)
  show "cacheAfter prev (handleWikiMoveNode t d newParent path prev) = prev"
    if "t \<in> childTerms prev newParent"
    using that by (rule move_duplicate)
  show "handleWikiMoveNode t d newParent path prev
      = (if currentTerm path = Some newParent then Inr prev
         else case prev (keyOf (currentTerm path)) of
                Some (Node old) \<Rightarrow> Inr prev
              | _ \<Rightarrow> Inl TypeError)"
    if "t \<in> childTerms prev newParent"
    using that by (rule move_duplicate_result)
  show "singleParent (cacheAfter prev (handleWikiMoveNode t d newParent path prev))"
    if "singleParent prev \<and> listedOnlyUnder prev t (keyOf (currentTerm path))"
    using that move_preserves [of prev path t d newParent] unfolding listedOnlyUnder_def by blast
  show "handleWikiAddManualEntry t d parentNode prev
      = Inr ((prev(parentNode \<mapsto>
                Node (n\<lparr>entries := entries n @ [\<lparr>term' = t, definition' = d,
                                                    relatedContext = ''Manually added by user''\<rparr>]\<rparr>)))
              (t \<mapsto> (case lookup prev t of
                         Some v \<Rightarrow> v
                       | None \<Rightarrow> Node \<lparr>entries = [], content = Some d, files = Some []\<rparr>)))"
    if "prev parentNode = Some (Node n)"
    using that add_to_node [of prev parentNode n t d] by blast
  show "handleWikiAddManualEntry t d parentNode prev
      = Inr ((prev(''ROOT'' \<mapsto>
                Node (n\<lparr>entries := entries n @ [\<lparr>term' = t, definition' = d,
                                                    relatedContext = ''Manually added by user''\<rparr>]\<rparr>)))
              (t \<mapsto> (case lookup prev t of
                         Some v \<Rightarrow> v
                       | None \<Rightarrow> Node \<lparr>entries = [], content = Some d, files = Some []\<rparr>)))"
    if "prev parentNode = None \<and> parentNode \<notin> set prototypeKeys \<and> prev ''ROOT'' = Some (Node n)"
    using that add_to_root [of prev parentNode n t d] by blast
  show "handleWikiAddManualEntry t d parentNode prev
      = Inr ((prev(''ROOT'' \<mapsto>
                Node \<lparr>entries = [\<lparr>term' = t, definition' = d, relatedContext = ''Manually added by user''\<rparr>],
                      content = Some [], files = Some []\<rparr>))
              (t \<mapsto> (case lookup prev t of
                         Some v \<Rightarrow> v
                       | None \<Rightarrow> Node \<lparr>entries = [], content = Some d, files = Some []\<rparr>)))"
    if "prev parentNode = None \<and> parentNode \<notin> set prototypeKeys \<and> prev ''ROOT'' = None"
    using that add_to_new_root [of prev parentNode t d] by blast
  show "handleWikiAddManualEntry t d t prev = Inr prev" if "prev t = Some (Node n)"
    using that add_self_noop [of prev t n d] by blast
qed

lemma move_example:
  "handleWikiMoveNode ''X'' ''d'' ''A'' [''ROOT''] exampleCache
     = Inr (exampleCache(''ROOT'' \<mapsto> Node \<lparr>entries = [], content = Some [], files = Some []\<rparr>,
                         ''A'' \<mapsto> Node \<lparr>entries = [\<lparr>term' = ''X'', definition' = ''d'',
                                                          relatedContext = ''Moved from ROOT''\<rparr>],
                                              content = Some [], files = Some []\<rparr>))"
  by (simp add: handleWikiMoveNode_def lookup_def currentTerm_def keyOf_def exampleCache_def)

text \<open>
  A move called for a term that the current node does not list adds the term to the new
  parent and removes it nowhere: X, listed by \<open>ROOT\<close>, moved to A while the current node is X.
\<close>

lemma move_of_unlisted_term:
  "\<not> listedOnlyUnder exampleCache ''X'' (keyOf (currentTerm [''ROOT'', ''X'']))
   \<and> childTerms (cacheAfter exampleCache (handleWikiMoveNode ''X'' ''d'' ''A'' [''ROOT'', ''X''] exampleCache)) ''ROOT''
       = {''X''}
   \<and> childTerms (cacheAfter exampleCache (handleWikiMoveNode ''X'' ''d'' ''A'' [''ROOT'', ''X''] exampleCache)) ''A''
       = {''X''}"
  by (simp add: listedOnlyUnder_def dom_example childTerms_example currentTerm_def keyOf_def
      handleWikiMoveNode_def lookup_def cacheAfter_def childTerms_def exampleCache_def)

text \<open>
  C2, amended, on \<open>exampleCache\<close>: a move to the current node; a move of X to \<open>ROOT\<close>, which
  lists it, from the node A, and from an empty path; the move of X from \<open>ROOT\<close> to A; the addition of X under A,
  while \<open>ROOT\<close> lists X; the addition of Y under a parent that the cache does not hold; the
  addition of Y to the empty cache; and the addition of A under A.
\<close>

theorem move_guarded_witness:
  "currentTerm [''ROOT''] = Some ''ROOT''
   \<and> handleWikiMoveNode ''X'' ''d'' ''ROOT'' [''ROOT''] exampleCache = Inr exampleCache
   \<and> ''X'' \<in> childTerms exampleCache ''ROOT''
   \<and> exampleCache (keyOf (currentTerm [''ROOT'', ''A'']))
       = Some (Node \<lparr>entries = [], content = Some [], files = Some []\<rparr>)
   \<and> cacheAfter exampleCache (handleWikiMoveNode ''X'' ''d'' ''ROOT'' [''ROOT'', ''A''] exampleCache) = exampleCache
   \<and> handleWikiMoveNode ''X'' ''d'' ''ROOT'' [''ROOT'', ''A''] exampleCache = Inr exampleCache
   \<and> exampleCache (keyOf (currentTerm [])) = None
   \<and> handleWikiMoveNode ''X'' ''d'' ''ROOT'' [] exampleCache = Inl TypeError
   \<and> singleParent exampleCache \<and> listedOnlyUnder exampleCache ''X'' (keyOf (currentTerm [''ROOT'']))
   \<and> singleParent (cacheAfter exampleCache (handleWikiMoveNode ''X'' ''d'' ''A'' [''ROOT''] exampleCache))
   \<and> exampleCache ''A'' = Some (Node \<lparr>entries = [], content = Some [], files = Some []\<rparr>)
   \<and> handleWikiAddManualEntry ''X'' ''d'' ''A'' exampleCache
       = Inr (exampleCache
               (''A'' \<mapsto> Node \<lparr>entries = [\<lparr>term' = ''X'', definition' = ''d'',
                                               relatedContext = ''Manually added by user''\<rparr>],
                                   content = Some [], files = Some []\<rparr>,
                ''X'' \<mapsto> Node \<lparr>entries = [], content = Some ''d'', files = Some []\<rparr>))
   \<and> exampleCache ''B'' = None \<and> ''B'' \<notin> set prototypeKeys
   \<and> exampleCache ''ROOT''
       = Some (Node \<lparr>entries = [\<lparr>term' = ''X'', definition' = ''d'', relatedContext = ''Manually added by user''\<rparr>],
                     content = Some [], files = Some []\<rparr>)
   \<and> handleWikiAddManualEntry ''Y'' ''e'' ''B'' exampleCache
       = Inr (exampleCache
               (''ROOT'' \<mapsto> Node \<lparr>entries = [\<lparr>term' = ''X'', definition' = ''d'',
                                                  relatedContext = ''Manually added by user''\<rparr>,
                                                \<lparr>term' = ''Y'', definition' = ''e'',
                                                  relatedContext = ''Manually added by user''\<rparr>],
                                      content = Some [], files = Some []\<rparr>,
                ''Y'' \<mapsto> Node \<lparr>entries = [], content = Some ''e'', files = Some []\<rparr>))
   \<and> Map.empty ''ROOT'' = (None :: CacheValue option) \<and> ''ROOT'' \<notin> set prototypeKeys
   \<and> handleWikiAddManualEntry ''Y'' ''e'' ''ROOT'' Map.empty
       = Inr [''ROOT'' \<mapsto> Node \<lparr>entries = [\<lparr>term' = ''Y'', definition' = ''e'',
                                                 relatedContext = ''Manually added by user''\<rparr>],
                                     content = Some [], files = Some []\<rparr>,
              ''Y'' \<mapsto> Node \<lparr>entries = [], content = Some ''e'', files = Some []\<rparr>]
   \<and> handleWikiAddManualEntry ''A'' ''e'' ''A'' exampleCache = Inr exampleCache"
proof -
  let ?n = "\<lparr>entries = [], content = Some [], files = Some []\<rparr> :: WikiNodeData"
  let ?r = "\<lparr>entries = [\<lparr>term' = ''X'', definition' = ''d'', relatedContext = ''Manually added by user''\<rparr>],
             content = Some [], files = Some []\<rparr> :: WikiNodeData"
  have h1: "currentTerm [''ROOT''] = Some ''ROOT''" by (simp add: currentTerm_def)
  have h2: "''X'' \<in> childTerms exampleCache ''ROOT''" by (simp add: childTerms_example)
  have h3: "listedOnlyUnder exampleCache ''X'' (keyOf (currentTerm [''ROOT'']))"
    by (simp add: listedOnlyUnder_def dom_example childTerms_example currentTerm_def keyOf_def)
  have h4: "exampleCache ''A'' = Some (Node ?n)" "exampleCache ''B'' = None"
    "exampleCache ''ROOT'' = Some (Node ?r)"
    "exampleCache (keyOf (currentTerm [''ROOT'', ''A''])) = Some (Node ?n)"
    "exampleCache (keyOf (currentTerm [])) = None"
    by (simp_all add: exampleCache_def currentTerm_def keyOf_def)
  have h7: "currentTerm [''ROOT'', ''A''] \<noteq> Some ''ROOT''" "currentTerm [] \<noteq> Some ''ROOT''"
    by (simp_all add: currentTerm_def)
  have h5: "''B'' \<notin> set prototypeKeys" "''ROOT'' \<notin> set prototypeKeys"
    by (simp_all add: prototypeKeys_def)
  have h6: "Map.empty ''ROOT'' = (None :: CacheValue option)" by simp
  have l: "lookup exampleCache ''X'' = Some (Node \<lparr>entries = [], content = Some ''d'', files = Some []\<rparr>)"
    "lookup exampleCache ''Y'' = None" "lookup Map.empty ''Y'' = None"
    by (simp_all add: lookup_def exampleCache_def prototypeKeys_def)
  have m1: "handleWikiMoveNode ''X'' ''d'' ''ROOT'' [''ROOT''] exampleCache = Inr exampleCache"
    using h1 move_guarded [of "[''ROOT'']" "''ROOT''" "''X''" "''d''" exampleCache "''A''" ?n] by blast
  have m2: "cacheAfter exampleCache (handleWikiMoveNode ''X'' ''d'' ''ROOT'' [''ROOT'', ''A''] exampleCache) = exampleCache"
    using h2 move_guarded [of "[''ROOT'', ''A'']" "''ROOT''" "''X''" "''d''" exampleCache "''A''" ?n]
    by blast
  have m2': "handleWikiMoveNode ''X'' ''d'' ''ROOT'' [''ROOT'', ''A''] exampleCache = Inr exampleCache"
    using move_guarded [of "[''ROOT'', ''A'']" "''ROOT''" "''X''" "''d''" exampleCache "''A''" ?n,
        THEN conjunct2, THEN conjunct2, THEN conjunct1, THEN mp, OF h2]
    by (simp add: h4(4) h7(1))
  have m4: "handleWikiMoveNode ''X'' ''d'' ''ROOT'' [] exampleCache = Inl TypeError"
    using move_guarded [of "[]" "''ROOT''" "''X''" "''d''" exampleCache "''A''" ?n,
        THEN conjunct2, THEN conjunct2, THEN conjunct1, THEN mp, OF h2]
    by (simp add: h4(5) h7(2))
  have m3: "singleParent (cacheAfter exampleCache (handleWikiMoveNode ''X'' ''d'' ''A'' [''ROOT''] exampleCache))"
    using h3 singleParent_example
      move_guarded [of "[''ROOT'']" "''A''" "''X''" "''d''" exampleCache "''A''" ?n] by blast
  have a1: "handleWikiAddManualEntry ''X'' ''d'' ''A'' exampleCache
       = Inr (exampleCache
               (''A'' \<mapsto> Node \<lparr>entries = [\<lparr>term' = ''X'', definition' = ''d'',
                                               relatedContext = ''Manually added by user''\<rparr>],
                                   content = Some [], files = Some []\<rparr>,
                ''X'' \<mapsto> Node \<lparr>entries = [], content = Some ''d'', files = Some []\<rparr>))"
    using h4(1) move_guarded [of "[''ROOT'']" "''A''" "''X''" "''d''" exampleCache "''A''" ?n]
    by (simp add: l)
  have a2: "handleWikiAddManualEntry ''Y'' ''e'' ''B'' exampleCache
       = Inr (exampleCache
               (''ROOT'' \<mapsto> Node \<lparr>entries = [\<lparr>term' = ''X'', definition' = ''d'',
                                                  relatedContext = ''Manually added by user''\<rparr>,
                                                \<lparr>term' = ''Y'', definition' = ''e'',
                                                  relatedContext = ''Manually added by user''\<rparr>],
                                      content = Some [], files = Some []\<rparr>,
                ''Y'' \<mapsto> Node \<lparr>entries = [], content = Some ''e'', files = Some []\<rparr>))"
    using h4(2,3) h5(1) move_guarded [of "[''ROOT'']" "''A''" "''Y''" "''e''" exampleCache "''B''" ?r]
    by (simp add: l)
  have a3: "handleWikiAddManualEntry ''Y'' ''e'' ''ROOT'' Map.empty
       = Inr [''ROOT'' \<mapsto> Node \<lparr>entries = [\<lparr>term' = ''Y'', definition' = ''e'',
                                                 relatedContext = ''Manually added by user''\<rparr>],
                                     content = Some [], files = Some []\<rparr>,
              ''Y'' \<mapsto> Node \<lparr>entries = [], content = Some ''e'', files = Some []\<rparr>]"
    using h5(2) move_guarded [of "[''ROOT'']" "''A''" "''Y''" "''e''" Map.empty "''ROOT''" ?n]
    by (simp add: l)
  have a4: "handleWikiAddManualEntry ''A'' ''e'' ''A'' exampleCache = Inr exampleCache"
    using h4(1) move_guarded [of "[''ROOT'']" "''A''" "''A''" "''e''" exampleCache "''A''" ?n]
    by blast
  from h1 m1 h2 h4(4) m2 m2' h4(5) m4 singleParent_example h3 m3 h4(1) a1 h4(2) h5(1) h4(3) a2 h6 h5(2) a3 a4
  show ?thesis by (intro conjI)
qed

section \<open>Properties of the snapshot import\<close>

lemma addLog_keeps:
  "AppState.files (addLog l m dt st) = AppState.files st" "wikiCache (addLog l m dt st) = wikiCache st"
  "riskData (addLog l m dt st) = riskData st" "wikiPath (addLog l m dt st) = wikiPath st"
  by (simp_all add: addLog_def)

lemma isArray_truthy: "isArray (getProp v key) \<Longrightarrow> truthy v"
  by (cases v) (simp_all add: getProp_def)

text \<open>
  C9, amended. A document whose \<open>files\<close> value is not an array, or whose \<open>wiki\<close> value is
  undefined, a boolean, a number or a string, is refused, and so is a text that is not JSON:
  an error is logged and documents, graph, risk register and path stay as they are. A
  document whose \<open>files\<close> value is an array and whose \<open>wiki\<close> value is an object or an array
  is accepted: documents and graph are replaced, the path is \<open>[ROOT]\<close>, and the risk register
  is replaced when the \<open>riskData\<close> value of the document is truthy and kept otherwise.
\<close>

theorem import_context:
  "(\<not> isArray (getProp v ''files'') \<or> \<not> typeofObject (getProp v ''wiki'')
      \<longrightarrow> handleImportContext (Value v) st
            = addLog error ''Failed to load context file'' (Some ''Invalid context file format.'') st)
   \<and> handleImportContext (SyntaxError msg) st = addLog error ''Failed to load context file'' (Some msg) st
   \<and> (isArray (getProp v ''files'') \<and> typeofObject (getProp v ''wiki'') \<and> getProp v ''wiki'' \<noteq> JNull
      \<longrightarrow> handleImportContext (Value v) st
            = \<lparr>files = getProp v ''files'',
               wikiCache = getProp v ''wiki'',
               riskData = (if truthy (getProp v ''riskData'') then getProp v ''riskData'' else riskData st),
               wikiPath = [''ROOT''],
               logs = logs st @ [\<lparr>level = success,
                                   message = ''Context loaded: '' @ showNat (arrayLength (getProp v ''files''))
                                               @ '' files restored.'',
                                   details = None\<rparr>]\<rparr>)
   \<and> AppState.files (addLog l m dt st) = AppState.files st
   \<and> wikiCache (addLog l m dt st) = wikiCache st
   \<and> riskData (addLog l m dt st) = riskData st
   \<and> wikiPath (addLog l m dt st) = wikiPath st"
proof -
  have reject: "handleImportContext (Value v) st
      = addLog error ''Failed to load context file'' (Some ''Invalid context file format.'') st"
    if "\<not> isArray (getProp v ''files'') \<or> \<not> typeofObject (getProp v ''wiki'')"
    using that by (auto simp: handleImportContext_def)
  have unparsed: "handleImportContext (SyntaxError msg) st
      = addLog error ''Failed to load context file'' (Some msg) st"
    by (simp add: handleImportContext_def)
  have accept: "handleImportContext (Value v) st
            = \<lparr>files = getProp v ''files'',
               wikiCache = getProp v ''wiki'',
               riskData = (if truthy (getProp v ''riskData'') then getProp v ''riskData'' else riskData st),
               wikiPath = [''ROOT''],
               logs = logs st @ [\<lparr>level = success,
                                   message = ''Context loaded: '' @ showNat (arrayLength (getProp v ''files''))
                                               @ '' files restored.'',
                                   details = None\<rparr>]\<rparr>"
    if "isArray (getProp v ''files'')" "typeofObject (getProp v ''wiki'')"
    using that isArray_truthy [of v "''files''"]
    by (simp add: handleImportContext_def addLog_def Let_def)
  from reject unparsed accept addLog_keeps [of l m dt st] show ?thesis by blast
qed

text \<open>
  C9 as stated fails. The snapshot of a session without risk register is imported into a
  session that has one: documents and graph are replaced, the risk register is not.
\<close>

theorem import_keeps_risk_register:
  "getProp snapshotWithoutRisks ''riskData'' = JNull
   \<and> AppState.files (handleImportContext (Value snapshotWithoutRisks) workingState) = JArr []
   \<and> wikiCache (handleImportContext (Value snapshotWithoutRisks) workingState) = JObj []
   \<and> wikiPath (handleImportContext (Value snapshotWithoutRisks) workingState) = [''ROOT'']
   \<and> riskData (handleImportContext (Value snapshotWithoutRisks) workingState) = riskData workingState
   \<and> riskData workingState \<noteq> JNull"
  by (simp add: handleImportContext_def snapshotWithoutRisks_def workingState_def getProp_def addLog_def)

text \<open>
  C9, amended: a document that is refused and a document that is accepted.
\<close>

theorem import_context_witness:
  "\<not> isArray (getProp malformedSnapshot ''files'')
   \<and> handleImportContext (Value malformedSnapshot) workingState
       = addLog error ''Failed to load context file'' (Some ''Invalid context file format.'') workingState
   \<and> isArray (getProp snapshotWithoutRisks ''files'') \<and> typeofObject (getProp snapshotWithoutRisks ''wiki'')
   \<and> getProp snapshotWithoutRisks ''wiki'' \<noteq> JNull
   \<and> handleImportContext (Value snapshotWithoutRisks) workingState
       = \<lparr>files = JArr [], wikiCache = JObj [], riskData = riskData workingState, wikiPath = [''ROOT''],
          logs = [\<lparr>level = success, message = ''Context loaded: 0 files restored.'', details = None\<rparr>]\<rparr>"
proof -
  have m: "\<not> isArray (getProp malformedSnapshot ''files'')"
    by (simp add: malformedSnapshot_def getProp_def)
  have s: "getProp snapshotWithoutRisks ''files'' = JArr []" "getProp snapshotWithoutRisks ''wiki'' = JObj []"
    "getProp snapshotWithoutRisks ''riskData'' = JNull"
    by (simp_all add: snapshotWithoutRisks_def getProp_def)
  have z: "showNat 0 = ''0''" by (simp add: showNat.simps digit_def)
  have l: "logs workingState = []" by (simp add: workingState_def)
  from m s z l
    import_context [of malformedSnapshot workingState "''x''" info "''x''" None]
    import_context [of snapshotWithoutRisks workingState "''x''" info "''x''" None]
  show ?thesis by simp
qed

text \<open>
  A \<open>wiki\<close> value of null passes the test \<open>typeof parsed.wiki === 'object'\<close>: the import is
  accepted and the graph becomes null. (\<open>handleImportWiki\<close> tests \<open>parsed !== null\<close> as well.)
\<close>

lemma import_accepts_null_graph:
  "wikiCache (handleImportContext (Value nullGraphSnapshot) workingState) = JNull
   \<and> AppState.files (handleImportContext (Value nullGraphSnapshot) workingState) = JArr []"
  by (simp add: handleImportContext_def nullGraphSnapshot_def getProp_def addLog_def)

end
